theory Spec2Isabelle
  imports Complex_Main
begin

section \<open>Arrays, observations and errors\<close>

text \<open>
  The agent of \<^verbatim>\<open>ch8/deep_ac_agent.py\<close> works on NumPy arrays and torch tensors.
  Both are row-major n-dimensional arrays: a shape and the flat sequence of the elements.
  Element values are real numbers; they stand for the finite values of the floating-point
  types. Conversions and tensor arithmetic round: the conversion to float32 is defined
  below, the arithmetic of torch on tensor values is a parameter of the model (see the
  collaborators).
  Python is dynamically typed, so an observation handed to the agent is either a NumPy
  array or a torch tensor; \<^verbatim>\<open>torch.from_numpy\<close> tells them apart.
\<close>

datatype error = TypeError | ValueError | RuntimeError | IndexError

record array =
  shape :: "nat list"
  data :: "real list"

datatype pyobj = NdArray array | Tensor array

text \<open>
  The conversion of a number to float32 (IEEE 754 binary32, round to nearest, ties to
  even): 24 significant bits, least exponent -126, hence a spacing of \<open>2 powi (e - 23)\<close>
  at \<open>2 powi e \<le> \<bar>x\<bar> < 2 powi (e + 1)\<close> and of \<open>2 powi (- 149)\<close> below
  \<open>2 powi (- 126)\<close>. Beyond the largest finite float32 value the libraries return an
  infinity, which is not a real number; here the rounding goes on with the same spacing
  rule, and nothing below applies it to such values.
\<close>

definition round_half_even :: "real \<Rightarrow> int" where
  "round_half_even y =
     (let f = \<lfloor>y\<rfloor>; d = y - of_int f in
      if d < 1 / 2 then f else if 1 / 2 < d then f + 1 else if even f then f else f + 1)"

definition float32 :: "real \<Rightarrow> real" where
  "float32 x =
     (if x = 0 then 0
      else let e = max \<lfloor>log 2 \<bar>x\<bar>\<rfloor> (- 126); q = 2 powi (e - 23)
           in q * of_int (round_half_even (x / q)))"

text \<open>\<^verbatim>\<open>t.float()\<close>: every element converted to float32.\<close>

definition to_float :: "array \<Rightarrow> array" where
  "to_float t = t\<lparr>data := map float32 (data t)\<rparr>"

definition unsqueeze0 :: "array \<Rightarrow> array" where
  "unsqueeze0 a = a\<lparr>shape := 1 # shape a\<rparr>"

definition squeeze :: "array \<Rightarrow> array" where
  "squeeze a = a\<lparr>shape := filter (\<lambda>d. d \<noteq> 1) (shape a)\<rparr>"

text \<open>
  \<^verbatim>\<open>np.reshape(a, new_shape)\<close> keeps the flat element sequence and replaces the shape;
  it raises ValueError when the sizes differ.
\<close>

definition np_reshape :: "array \<Rightarrow> nat list \<Rightarrow> error + array" where
  "np_reshape a new_shape =
     (if prod_list new_shape = length (data a)
      then Inr \<lparr>shape = new_shape, data = data a\<rparr>
      else Inl ValueError)"

text \<open>
  \<^verbatim>\<open>np.resize(a, new_shape)\<close> flattens \<open>a\<close>, repeats the flat sequence as often as needed
  and cuts it to the new size (zeros when either size is 0):
  \<^verbatim>\<open>repeats = -(-new_size // a.size); concatenate((a,) * repeats)[:new_size]\<close>.
\<close>

definition np_resize :: "array \<Rightarrow> nat list \<Rightarrow> array" where
  "np_resize a new_shape =
     (let new_size = prod_list new_shape; xs = data a in
      if length xs = 0 \<or> new_size = 0
      then \<lparr>shape = new_shape, data = replicate new_size 0\<rparr>
      else \<lparr>shape = new_shape,
            data = take new_size
                     (concat (replicate ((new_size + length xs - 1) div length xs) xs))\<rparr>)"

text \<open>
  \<^verbatim>\<open>preproc_obs\<close> (source lines 150-157). The NumPy functions accept any array-like
  object, so a tensor of rank 3 passes through them and comes back as a NumPy array;
  \<^verbatim>\<open>torch.from_numpy\<close> accepts a NumPy array only and raises TypeError on a tensor.
  The result is always a torch tensor, of element type float32 (\<^verbatim>\<open>.float()\<close>).
\<close>

definition preproc_obs :: "pyobj \<Rightarrow> error + array" where
  "preproc_obs obs =
     (let a = (case obs of NdArray a \<Rightarrow> a | Tensor a \<Rightarrow> a) in
      if length (shape a) = 3 then
        (case np_reshape a [shape a ! 2, shape a ! 1, shape a ! 0] of
           Inl e \<Rightarrow> Inl e
         | Inr b \<Rightarrow> Inr (to_float (unsqueeze0 (np_resize b [3, 84, 84]))))
      else
        (case obs of
           NdArray a \<Rightarrow> Inr (to_float (unsqueeze0 a))
         | Tensor a \<Rightarrow> Inl TypeError))"

section \<open>The agent and its collaborators\<close>

text \<open>
  The neural network, the Gaussian distribution of torch, the optimizer and the
  environment are libraries outside the repository. They are parameters of the model:
  \<^item> \<open>forward\<close>: the network on a batch of one observation, giving the row of means,
    the row of raw spreads and the value estimate (the three heads of
    \<^verbatim>\<open>ShallowActorCritic\<close> / \<^verbatim>\<open>DeepActorCritic\<close>; the critic head has one output);
  \<^item> \<open>mvn_args_ok\<close>: the argument checks of \<^verbatim>\<open>MultivariateNormal(..., validate_args=True)\<close>;
  \<^item> \<open>mvn_sample\<close>, \<open>mvn_log_prob\<close>: sampling (threading a generator state) and the
    log-density, which validates its argument;
  \<^item> \<open>smooth_l1_loss\<close>: \<^verbatim>\<open>F.smooth_l1_loss\<close> on two batches;
  \<^item> \<open>optimizer_step\<close>: \<^verbatim>\<open>zero_grad(); loss.backward(); optimizer.step()\<close> on the
    network weights;
  \<^item> \<open>env_reset\<close>, \<open>env_step\<close>: the Gym environment;
  \<^item> the arithmetic of torch on tensor values, each operation with its own rounding:
    \<open>as_tensor\<close> is \<^verbatim>\<open>torch.tensor(x)\<close> of a Python number, \<open>add_tt\<close> and \<open>sub_tt\<close> are
    \<^verbatim>\<open>+\<close> and \<^verbatim>\<open>-\<close> of two tensors, \<open>add_ts\<close> is a tensor plus a Python number,
    \<open>mul_ts\<close> is a tensor times a Python number, \<open>pow_2\<close> is \<^verbatim>\<open>.pow(2)\<close> and \<open>t_mean\<close> is
    \<^verbatim>\<open>.mean()\<close> of a batch.
\<close>

record mvn =
  loc :: array
  covariance_matrix :: array

text \<open>
  The named tuple \<^verbatim>\<open>Transition(s, value_s, a, log_prob_a)\<close>; the one-letter fields are
  written \<open>tr_s\<close> and \<open>tr_a\<close>.
\<close>

record transition =
  tr_s :: array
  value_s :: real
  tr_a :: array
  log_prob_a :: real

datatype loss_graph =
    NStepLoss "transition list" "real list"
  | TDLoss array array real array

record ('p, 'g, 'e) collaborators =
  forward :: "'p \<Rightarrow> array \<Rightarrow> real list \<times> real list \<times> real"
  mvn_args_ok :: "array \<Rightarrow> array \<Rightarrow> bool"
  mvn_sample :: "'g \<Rightarrow> mvn \<Rightarrow> array \<times> 'g"
  mvn_log_prob :: "mvn \<Rightarrow> array \<Rightarrow> error + real"
  smooth_l1_loss :: "real list \<Rightarrow> real list \<Rightarrow> error + real"
  optimizer_step :: "'p \<Rightarrow> loss_graph \<Rightarrow> 'p"
  env_reset :: "'e \<Rightarrow> array \<times> 'e"
  env_step :: "'e \<Rightarrow> array \<Rightarrow> (array \<times> real \<times> bool) \<times> 'e"
  as_tensor :: "real \<Rightarrow> real"
  add_tt :: "real \<Rightarrow> real \<Rightarrow> real"
  add_ts :: "real \<Rightarrow> real \<Rightarrow> real"
  mul_ts :: "real \<Rightarrow> real \<Rightarrow> real"
  sub_tt :: "real \<Rightarrow> real \<Rightarrow> real"
  pow_2 :: "real \<Rightarrow> real"
  t_mean :: "real list \<Rightarrow> real"

text \<open>
  The fields of \<^verbatim>\<open>DeepActorCriticAgent\<close>, together with the module-level variables
  the methods write: \<^verbatim>\<open>writer\<close> (a log of tag, value, step), the module's own
  \<^verbatim>\<open>global_step_num\<close> (source line 28, here \<open>module_step_num\<close>) and the state of the
  random generator.
\<close>

record ('p, 'g, 'e) agent =
  actor_critic :: 'p
  action_shape :: nat
  gamma :: real
  mu :: array
  sigma :: array
  "value" :: real
  trajectory :: "transition list"
  rewards :: "real list"
  global_step_num :: nat
  writer :: "(string \<times> real \<times> nat) list"
  module_step_num :: nat
  rng :: 'g
  env :: 'e

section \<open>n-step returns\<close>

text \<open>
  \<^verbatim>\<open>calculate_n_step_return\<close> (source lines 179-193). The running return \<^verbatim>\<open>g_t_n\<close>
  starts as the Python number 0 when \<open>done\<close>, else as the critic output (a tensor) at the
  preprocessed final state. Each pass of the loop over the reversed rewards computes
  \<^verbatim>\<open>torch.tensor(r_t) + self.gamma * g_t_n\<close>: while \<^verbatim>\<open>g_t_n\<close> is the Python number 0 the
  product is Python's (the product with 0 is exact) and the sum is a tensor plus a Python
  number; from then on the product is a tensor times a Python number and the sum is a
  sum of two tensors. Each return is inserted at the front. The discount used is the
  field \<^verbatim>\<open>self.gamma\<close>; the argument \<^verbatim>\<open>gamma\<close> of the function is never read.
\<close>

datatype number = PyNum real | TensorVal real

definition n_step_loop ::
  "('p, 'g, 'e) collaborators \<Rightarrow> real \<Rightarrow> number \<Rightarrow> real list \<Rightarrow> number \<times> real list" where
  "n_step_loop C g g_t_n n_step_rewards =
     foldl (\<lambda>(g_t_n, g_t_n_s) r_t.
              let g_t_n' = (case g_t_n of
                              PyNum z \<Rightarrow> add_ts C (as_tensor C r_t) (g * z)
                            | TensorVal v \<Rightarrow> add_tt C (as_tensor C r_t) (mul_ts C v g))
              in (TensorVal g_t_n', g_t_n' # g_t_n_s))
           (g_t_n, []) (rev n_step_rewards)"

definition calculate_n_step_return ::
  "('p, 'g, 'e) collaborators \<Rightarrow> ('p, 'g, 'e) agent \<Rightarrow> real list \<Rightarrow> pyobj \<Rightarrow> bool \<Rightarrow> real
     \<Rightarrow> error + real list" where
  "calculate_n_step_return C self n_step_rewards final_state done gamma_arg =
     (case (if done then Inr (PyNum 0)
            else (case preproc_obs final_state of
                    Inl e \<Rightarrow> Inl e
                  | Inr x \<Rightarrow> Inr (TensorVal (snd (snd (forward C (actor_critic self) x)))))) of
        Inl e \<Rightarrow> Inl e
      | Inr g_t_n \<Rightarrow> Inr (snd (n_step_loop C (gamma self) g_t_n n_step_rewards)))"

section \<open>The Gaussian policy\<close>

text \<open>
  \<^verbatim>\<open>torch.clamp(x, lo, hi)\<close> and \<^verbatim>\<open>torch.nn.Softplus()\<close> (beta 1, threshold 20), elementwise.
\<close>

definition clamp :: "real \<Rightarrow> real \<Rightarrow> real \<Rightarrow> real" where
  "clamp x lo hi = min (max x lo) hi"

definition softplus :: "real \<Rightarrow> real" where
  "softplus x = (if x > 20 then x else ln (1 + exp x))"

text \<open>
  \<^verbatim>\<open>torch.eye(k) * sigma\<close>: entry (i, j) is the entry of the identity times \<open>sigma\<close>
  broadcast along the rows. The spread is a squeezed row of the network, so it has
  rank 0 (one action dimension) or rank 1; a rank-1 spread of another length than \<open>k\<close>
  (and not 1) cannot be broadcast.
\<close>

definition eye_times :: "nat \<Rightarrow> array \<Rightarrow> error + array" where
  "eye_times k sg =
     (if length (shape sg) \<le> 1 \<and> length (data sg) = 1 then
        Inr \<lparr>shape = [k, k],
             data = concat (map (\<lambda>i. map (\<lambda>j. (if i = j then 1 else 0) * data sg ! 0) [0..<k])
                                [0..<k])\<rparr>
      else if length (shape sg) = 1 \<and> length (data sg) = k then
        Inr \<lparr>shape = [k, k],
             data = concat (map (\<lambda>i. map (\<lambda>j. (if i = j then 1 else 0) * data sg ! j) [0..<k])
                                [0..<k])\<rparr>
      else Inl RuntimeError)"

definition MultivariateNormal ::
  "('p, 'g, 'e) collaborators \<Rightarrow> array \<Rightarrow> array \<Rightarrow> error + mvn" where
  "MultivariateNormal C m cov =
     (if mvn_args_ok C m cov then Inr \<lparr>loc = m, covariance_matrix = cov\<rparr>
      else Inl ValueError)"

text \<open>
  \<^verbatim>\<open>multi_variate_gaussian_policy\<close> (source lines 131-148). It stores the mean, the
  spread and the value in the agent and returns the distribution. Clamping does not
  round. The spread is written without rounding; what rounding the sum with \<open>1e-7\<close> to
  float32 does to the floor is stated apart, on \<open>f32_add_scalar\<close>.
\<close>

definition multi_variate_gaussian_policy ::
  "('p, 'g, 'e) collaborators \<Rightarrow> ('p, 'g, 'e) agent \<Rightarrow> array
     \<Rightarrow> error + (mvn \<times> ('p, 'g, 'e) agent)" where
  "multi_variate_gaussian_policy C self obs =
     (case forward C (actor_critic self) obs of (mu_raw, sigma_raw, v) \<Rightarrow>
        let mu1 = squeeze \<lparr>shape = [1, length mu_raw],
                          data = map (\<lambda>x. clamp x (- 1) 1) mu_raw\<rparr>;
            sigma1 = squeeze \<lparr>shape = [1, length sigma_raw],
                             data = map (\<lambda>x. softplus x + 1 / 10 ^ 7) sigma_raw\<rparr>;
            mu2 = (if length (shape mu1) = 0 then unsqueeze0 mu1 else mu1);
            self1 = self\<lparr>mu := mu2, sigma := sigma1, value := v\<rparr>
        in (case eye_times (action_shape self1) (sigma self1) of
              Inl e \<Rightarrow> Inl e
            | Inr cov \<Rightarrow>
                (case MultivariateNormal C (mu self1) cov of
                   Inl e \<Rightarrow> Inl e
                 | Inr d \<Rightarrow> Inr (d, self1))))"

section \<open>Actions\<close>

text \<open>
  \<^verbatim>\<open>action[i] = f(action[i])\<close> on a tensor: the i-th block along the first axis is
  replaced; IndexError when the tensor has rank 0 or the index is out of range.
\<close>

definition set_item :: "array \<Rightarrow> nat \<Rightarrow> (real \<Rightarrow> real) \<Rightarrow> error + array" where
  "set_item t i f =
     (case shape t of
        [] \<Rightarrow> Inl IndexError
      | d # ds \<Rightarrow>
          if i < d then
            let w = prod_list ds in
            Inr (t\<lparr>data := take (i * w) (data t) @ map f (take w (drop (i * w) (data t)))
                              @ drop ((i + 1) * w) (data t)\<rparr>)
          else Inl IndexError)"

text \<open>
  \<^verbatim>\<open>process_action\<close> (source lines 159-167). The two guards test
  \<^verbatim>\<open>len(action.shape)\<close>, the rank of the squeezed tensor. The sum with \<open>1e-4\<close> in the
  second branch is written without rounding; no statement below reaches that branch
  with a value.
\<close>

definition process_action :: "array \<Rightarrow> error + array" where
  "process_action action =
     (let a1 = squeeze action;
          a2 = (if length (shape a1) = 0 then unsqueeze0 a1 else a1) in
      case (if length (shape a2) > 1 then set_item a2 1 (\<lambda>x. clamp x 0 1) else Inr a2) of
        Inl e \<Rightarrow> Inl e
      | Inr a3 \<Rightarrow>
          (if length (shape a3) > 2 then set_item a3 2 (\<lambda>x. clamp x 0 1 + 1 / 10 ^ 4)
           else Inr a3))"

text \<open>\<^verbatim>\<open>get_action\<close> (source lines 169-177).\<close>

definition get_action ::
  "('p, 'g, 'e) collaborators \<Rightarrow> ('p, 'g, 'e) agent \<Rightarrow> pyobj
     \<Rightarrow> error + (array \<times> ('p, 'g, 'e) agent)" where
  "get_action C self obs =
     (case preproc_obs obs of
        Inl e \<Rightarrow> Inl e
      | Inr x \<Rightarrow>
          (case multi_variate_gaussian_policy C self x of
             Inl e \<Rightarrow> Inl e
           | Inr (action_distribution, self1) \<Rightarrow>
               (case mvn_sample C (rng self1) action_distribution of (sampled, g') \<Rightarrow>
                  (case mvn_log_prob C action_distribution sampled of
                     Inl e \<Rightarrow> Inl e
                   | Inr lp \<Rightarrow>
                       (case process_action sampled of
                          Inl e \<Rightarrow> Inl e
                        | Inr action \<Rightarrow>
                            Inr (action,
                                 self1\<lparr>rng := g',
                                       trajectory := trajectory self1 @
                                         [\<lparr>tr_s = x, value_s = value self1, tr_a = action,
                                           log_prob_a = lp\<rparr>]\<rparr>))))))"

section \<open>Losses and learning\<close>

text \<open>The mean of a batch in exact arithmetic.\<close>

definition mean :: "real list \<Rightarrow> real" where
  "mean xs = sum_list xs / real (length xs)"

text \<open>
  \<^verbatim>\<open>calculate_loss\<close> (source lines 195-209). \<^verbatim>\<open>Transition(*zip(*trajectory))\<close> raises
  TypeError on an empty trajectory.
\<close>

definition calculate_loss ::
  "('p, 'g, 'e) collaborators \<Rightarrow> transition list \<Rightarrow> real list \<Rightarrow> error + real" where
  "calculate_loss C traj td_targets =
     (if traj = [] then Inl TypeError
      else
        let v_s_batch = map value_s traj;
            log_prob_a_batch = map log_prob_a traj in
        case smooth_l1_loss C v_s_batch td_targets of
          Inl e \<Rightarrow> Inl e
        | Inr critic_loss \<Rightarrow>
            let actor_loss = - t_mean C log_prob_a_batch in
            Inr (add_tt C actor_loss critic_loss))"

text \<open>
  \<^verbatim>\<open>learn_td_ac\<close> (source lines 211-232): the one-step update. The flag \<open>done\<close> is
  not read. The loss is logged under the module-level step counter.
\<close>

definition learn_td_ac ::
  "('p, 'g, 'e) collaborators \<Rightarrow> ('p, 'g, 'e) agent \<Rightarrow> pyobj \<Rightarrow> array \<Rightarrow> real \<Rightarrow> pyobj
     \<Rightarrow> bool \<Rightarrow> error + ('p, 'g, 'e) agent" where
  "learn_td_ac C self s_t a_t r s_tp1 done =
     (case preproc_obs s_t of
        Inl e \<Rightarrow> Inl e
      | Inr x \<Rightarrow>
     (case multi_variate_gaussian_policy C self x of
        Inl e \<Rightarrow> Inl e
      | Inr (d, self1) \<Rightarrow>
     (case mvn_log_prob C d a_t of
        Inl e \<Rightarrow> Inl e
      | Inr policy_loss \<Rightarrow>
     (let v_st = value self1 in
      case preproc_obs s_tp1 of
        Inl e \<Rightarrow> Inl e
      | Inr x' \<Rightarrow>
     (case multi_variate_gaussian_policy C self1 x' of
        Inl e \<Rightarrow> Inl e
      | Inr (d', self2) \<Rightarrow>
          let v_stp1 = value self2;
              td_target = add_tt C (as_tensor C r) (mul_ts C v_stp1 (gamma self2));
              td_err = sub_tt C td_target v_st;
              loss = - t_mean C [add_tt C policy_loss (pow_2 C td_err)]
          in Inr (self2\<lparr>writer := writer self2 @ [(''main/loss'', loss, module_step_num self2)],
                        actor_critic := optimizer_step C (actor_critic self2)
                                          (TDLoss x a_t r x')\<rparr>))))))"

text \<open>\<^verbatim>\<open>learn\<close> (source lines 234-240): the n-step update.\<close>

definition learn ::
  "('p, 'g, 'e) collaborators \<Rightarrow> ('p, 'g, 'e) agent \<Rightarrow> pyobj \<Rightarrow> bool
     \<Rightarrow> error + ('p, 'g, 'e) agent" where
  "learn C self n_th_observation done =
     (case calculate_n_step_return C self (rewards self) n_th_observation done (gamma self) of
        Inl e \<Rightarrow> Inl e
      | Inr td_targets \<Rightarrow>
          (case calculate_loss C (trajectory self) td_targets of
             Inl e \<Rightarrow> Inl e
           | Inr loss \<Rightarrow>
               Inr (self\<lparr>writer := writer self @ [(''agent/loss'', loss, global_step_num self)],
                         actor_critic := optimizer_step C (actor_critic self)
                                           (NStepLoss (trajectory self) td_targets)\<rparr>)))"

section \<open>The n-step training loop\<close>

text \<open>
  \<^verbatim>\<open>run\<close> (source lines 242-261). The variables of one episode are \<open>obs\<close>, \<open>done\<close>,
  \<open>ep_reward\<close> and \<open>step_num\<close>. \<open>run_body\<close> is one pass through the body of
  \<^verbatim>\<open>while not done\<close>. The total \<open>ep_reward\<close> is a sum of Python numbers; it is kept as
  the exact sum, and no statement below speaks about it.
\<close>

record episode_vars =
  obs :: array
  "done" :: bool
  ep_reward :: real
  step_num :: nat

definition run_body ::
  "('p, 'g, 'e) collaborators \<Rightarrow> int \<Rightarrow> episode_vars \<times> ('p, 'g, 'e) agent
     \<Rightarrow> error + (episode_vars \<times> ('p, 'g, 'e) agent)" where
  "run_body C n_step_learning_step_thresh st =
     (case st of (v, self) \<Rightarrow>
       (case get_action C self (NdArray (obs v)) of
          Inl e \<Rightarrow> Inl e
        | Inr (action, self1) \<Rightarrow>
            (case env_step C (env self1) action of ((next_obs, reward, done'), e') \<Rightarrow>
               (let self2 = self1\<lparr>env := e', rewards := rewards self1 @ [reward]\<rparr>;
                    step_num' = step_num v + 1
                in (case (if int step_num' \<ge> n_step_learning_step_thresh \<or> done'
                          then learn C self2 (NdArray next_obs) done' else Inr self2) of
                      Inl e \<Rightarrow> Inl e
                    | Inr self3 \<Rightarrow>
                        (let self4 = self3\<lparr>global_step_num := global_step_num self3 + 1\<rparr> in
                         Inr (\<lparr>obs = next_obs, done = done',
                               ep_reward = ep_reward v + reward, step_num = step_num'\<rparr>,
                              self4\<lparr>writer := writer self4 @
                                      [(''agent/reward'', reward, global_step_num self4)]\<rparr>)))))))"

text \<open>
  The loop \<^verbatim>\<open>while not done\<close> need not end (the environment decides), so it runs on
  fuel: \<open>None\<close> is "still running when the fuel is used up".
\<close>

fun run_while ::
  "nat \<Rightarrow> ('p, 'g, 'e) collaborators \<Rightarrow> int \<Rightarrow> episode_vars \<times> ('p, 'g, 'e) agent
     \<Rightarrow> (error + (episode_vars \<times> ('p, 'g, 'e) agent)) option" where
  "run_while 0 C thresh st = (if done (fst st) then Some (Inr st) else None)"
| "run_while (Suc fuel) C thresh st =
     (if done (fst st) then Some (Inr st)
      else case run_body C thresh st of
             Inl e \<Rightarrow> Some (Inl e)
           | Inr st' \<Rightarrow> run_while fuel C thresh st')"

definition run_episode ::
  "nat \<Rightarrow> ('p, 'g, 'e) collaborators \<Rightarrow> int \<Rightarrow> ('p, 'g, 'e) agent
     \<Rightarrow> (error + ('p, 'g, 'e) agent) option" where
  "run_episode fuel C thresh self =
     (case env_reset C (env self) of (o0, e') \<Rightarrow>
       (case run_while fuel C thresh
               (\<lparr>obs = o0, done = False, ep_reward = 0, step_num = 0\<rparr>, self\<lparr>env := e'\<rparr>) of
          None \<Rightarrow> None
        | Some (Inl e) \<Rightarrow> Some (Inl e)
        | Some (Inr (v, self1)) \<Rightarrow>
            Some (Inr (self1\<lparr>writer := writer self1 @
                         [(''agent/ep_reward'', ep_reward v, global_step_num self1)]\<rparr>))))"

fun run ::
  "nat \<Rightarrow> ('p, 'g, 'e) collaborators \<Rightarrow> nat \<Rightarrow> int \<Rightarrow> ('p, 'g, 'e) agent
     \<Rightarrow> (error + ('p, 'g, 'e) agent) option" where
  "run fuel C 0 thresh self = Some (Inr self)"
| "run fuel C (Suc max_episodes) thresh self =
     (case run_episode fuel C thresh self of
        None \<Rightarrow> None
      | Some (Inl e) \<Rightarrow> Some (Inl e)
      | Some (Inr self1) \<Rightarrow> run fuel C max_episodes thresh self1)"

section \<open>Notions used in the statements\<close>

text \<open>
  A well-formed array has as many elements as its shape says; NumPy arrays and torch
  tensors always do.
\<close>

definition wf_array :: "array \<Rightarrow> bool" where
  "wf_array t = (length (data t) = prod_list (shape t))"

text \<open>\<^verbatim>\<open>preproc_obs(preproc_obs(obs))\<close>: the second call receives the tensor the first returns.\<close>

definition preproc_twice :: "pyobj \<Rightarrow> error + array" where
  "preproc_twice ob =
     (case preproc_obs ob of Inl e \<Rightarrow> Inl e | Inr t \<Rightarrow> preproc_obs (Tensor t))"

text \<open>
  A call of \<^verbatim>\<open>learn\<close> leaves exactly one entry tagged \<^verbatim>\<open>agent/loss\<close> in the writer,
  with the value of \<^verbatim>\<open>self.global_step_num\<close> at the call. \<open>learn_steps\<close> reads these
  step numbers off a log.
\<close>

definition learn_steps :: "(string \<times> real \<times> nat) list \<Rightarrow> nat list" where
  "learn_steps w = map (\<lambda>e. snd (snd e)) (filter (\<lambda>e. fst e = ''agent/loss'') w)"

text \<open>Tensor arithmetic without rounding: every operation is the exact one.\<close>

definition exact_arithmetic :: "('p, 'g, 'e) collaborators \<Rightarrow> bool" where
  "exact_arithmetic C =
     (as_tensor C = (\<lambda>x. x) \<and> add_tt C = (\<lambda>a b. a + b) \<and> add_ts C = (\<lambda>a b. a + b)
      \<and> mul_ts C = (\<lambda>a b. a * b) \<and> sub_tt C = (\<lambda>a b. a - b) \<and> pow_2 C = (\<lambda>a. a ^ 2)
      \<and> t_mean C = mean)"

text \<open>
  Tensor arithmetic in float32: the exact result of each operation rounded once. A Python
  number meeting a float32 tensor is converted to float32 first. The mean adds the
  elements one after the other (torch may add them in another order; on a batch of one
  element the result is that element either way).
\<close>

definition f32_add :: "real \<Rightarrow> real \<Rightarrow> real" where
  "f32_add a b = float32 (a + b)"

definition f32_add_scalar :: "real \<Rightarrow> real \<Rightarrow> real" where
  "f32_add_scalar a x = float32 (a + float32 x)"

definition f32_mul_scalar :: "real \<Rightarrow> real \<Rightarrow> real" where
  "f32_mul_scalar a x = float32 (a * float32 x)"

definition f32_sub :: "real \<Rightarrow> real \<Rightarrow> real" where
  "f32_sub a b = float32 (a - b)"

definition f32_pow2 :: "real \<Rightarrow> real" where
  "f32_pow2 a = float32 (a * a)"

definition f32_mean :: "real list \<Rightarrow> real" where
  "f32_mean xs = float32 (foldl f32_add 0 xs / real (length xs))"

subsection \<open>A small concrete agent\<close>

text \<open>
  An instance of the collaborators on which the definitions can be run: a three-dimensional
  action space; a network with constant mean and spread outputs whose value estimate is
  the sum of the observation; a distribution whose sample is its mean and whose
  log-density is 0; an optimizer that appends the n-step targets it is given to the
  weights (so the weights record what each learning step consumed); an environment with
  two-element observations whose episodes last two steps, with rewards 1 and 2; exact
  tensor arithmetic (all values that occur in its runs are float32 values, and so are
  the results of the operations on them).
\<close>

definition demo_collaborators :: "(real list list, unit, nat) collaborators" where
  "demo_collaborators =
     \<lparr>forward = (\<lambda>p x. ([3, - 2, 1 / 2], [0, 0, 0], sum_list (data x))),
      mvn_args_ok = (\<lambda>m cov. shape cov = [length (data m), length (data m)]),
      mvn_sample = (\<lambda>g d. (loc d, g)),
      mvn_log_prob = (\<lambda>d x. Inr 0),
      smooth_l1_loss = (\<lambda>xs ys. if length xs = length ys then Inr 0 else Inl RuntimeError),
      optimizer_step =
        (\<lambda>p l. case l of NStepLoss tr td \<Rightarrow> p @ [td] | TDLoss x act r x' \<Rightarrow> p),
      env_reset = (\<lambda>e. (\<lparr>shape = [2], data = [0, 0]\<rparr>, 0)),
      env_step =
        (\<lambda>e act. ((\<lparr>shape = [2], data = [real (e + 1), 0]\<rparr>, real (e + 1), 2 \<le> e + 1),
                    e + 1)),
      as_tensor = (\<lambda>x. x), add_tt = (\<lambda>a b. a + b), add_ts = (\<lambda>a b. a + b),
      mul_ts = (\<lambda>a b. a * b), sub_tt = (\<lambda>a b. a - b), pow_2 = (\<lambda>a. a ^ 2),
      t_mean = mean\<rparr>"

text \<open>The same agent with float32 tensor arithmetic.\<close>

definition demo_f32 :: "(real list list, unit, nat) collaborators" where
  "demo_f32 =
     demo_collaborators\<lparr>as_tensor := float32, add_tt := f32_add, add_ts := f32_add_scalar,
       mul_ts := f32_mul_scalar, sub_tt := f32_sub, pow_2 := f32_pow2, t_mean := f32_mean\<rparr>"

text \<open>The same agent in an environment whose episodes last five steps (rewards 1 to 5).\<close>

definition demo_long :: "(real list list, unit, nat) collaborators" where
  "demo_long =
     demo_collaborators\<lparr>env_step :=
       (\<lambda>e act. ((\<lparr>shape = [2], data = [real (e + 1), 0]\<rparr>, real (e + 1), 5 \<le> e + 1),
                   e + 1))\<rparr>"

definition demo_agent :: "(real list list, unit, nat) agent" where
  "demo_agent =
     \<lparr>actor_critic = [], action_shape = 3, gamma = 1 / 2,
      mu = \<lparr>shape = [0], data = []\<rparr>, sigma = \<lparr>shape = [0], data = []\<rparr>, value = 0,
      trajectory = [], rewards = [], global_step_num = 0, writer = [],
      module_step_num = 0, rng = (), env = 0\<rparr>"

definition demo_dist :: mvn where
  "demo_dist =
     \<lparr>loc = \<lparr>shape = [3], data = [1, - 1, 1 / 2]\<rparr>,
      covariance_matrix =
        \<lparr>shape = [3, 3],
         data = [softplus 0 + 1 / 10 ^ 7, 0, 0,
                 0, softplus 0 + 1 / 10 ^ 7, 0,
                 0, 0, softplus 0 + 1 / 10 ^ 7]\<rparr>\<rparr>"

text \<open>The agent after one two-step episode (before the episode's reward is logged).\<close>

definition demo_final :: "(real list list, unit, nat) agent" where
  "demo_final =
     \<lparr>actor_critic = [[3 / 2], [2, 2]], action_shape = 3, gamma = 1 / 2,
      mu = \<lparr>shape = [3], data = [1, - 1, 1 / 2]\<rparr>,
      sigma = \<lparr>shape = [3], data = [softplus 0 + 1 / 10 ^ 7, softplus 0 + 1 / 10 ^ 7,
                                     softplus 0 + 1 / 10 ^ 7]\<rparr>,
      value = 1,
      trajectory =
        [\<lparr>tr_s = \<lparr>shape = [1, 2], data = [0, 0]\<rparr>, value_s = 0,
          tr_a = \<lparr>shape = [3], data = [1, - 1, 1 / 2]\<rparr>, log_prob_a = 0\<rparr>,
         \<lparr>tr_s = \<lparr>shape = [1, 2], data = [1, 0]\<rparr>, value_s = 1,
          tr_a = \<lparr>shape = [3], data = [1, - 1, 1 / 2]\<rparr>, log_prob_a = 0\<rparr>],
      rewards = [1, 2], global_step_num = 2,
      writer = [(''agent/loss'', 0, 0), (''agent/reward'', 1, 1),
                (''agent/loss'', 0, 1), (''agent/reward'', 2, 2)],
      module_step_num = 0, rng = (), env = 2\<rparr>"

section \<open>Rounding to float32\<close>

lemma float32_zero [simp]: "float32 0 = 0"
  by (simp add: float32_def)

text \<open>The rounding of a number whose binary exponent is known.\<close>

lemma float32_exponent:
  assumes "2 powi e \<le> \<bar>x\<bar>" and "\<bar>x\<bar> < 2 powi (e + 1)" and "- 126 \<le> e"
  shows "float32 x = 2 powi (e - 23) * of_int (round_half_even (x / 2 powi (e - 23)))"
proof -
  have "(0::real) < 2 powi e"
    by simp
  with assms(1) have pos: "0 < \<bar>x\<bar>"
    by linarith
  have "(2::real) powr real_of_int e \<le> \<bar>x\<bar>"
    using assms(1) by (simp add: powr_real_of_int')
  moreover have "(2::real) powr real_of_int (e + 1) = 2 powi (e + 1)"
    by (rule powr_real_of_int') simp_all
  then have "\<bar>x\<bar> < (2::real) powr (real_of_int e + 1)"
    using assms(2) by simp
  ultimately have "\<lfloor>log 2 \<bar>x\<bar>\<rfloor> = e"
    using pos by (simp add: floor_log_eq_powr_iff)
  with pos assms(3) show ?thesis
    by (simp add: float32_def Let_def max_def)
qed

text \<open>Small whole numbers and halves are float32 values.\<close>

lemma float32_small [simp]:
  "float32 1 = 1" "float32 2 = 2" "float32 3 = 3" "float32 4 = 4" "float32 5 = 5"
  "float32 10 = 10" "float32 (1 / 2) = 1 / 2"
  using float32_exponent [of 0 1] float32_exponent [of 1 2] float32_exponent [of 1 3]
    float32_exponent [of 2 4] float32_exponent [of 2 5] float32_exponent [of 3 10]
    float32_exponent [of "- 1" "1 / 2"]
  by (simp_all add: round_half_even_def)

text \<open>
  \<open>2 ^ 24\<close> is a float32 value, \<open>2 ^ 24 + 1\<close> is not: it lies half way between two
  float32 values and is rounded to the even one.
\<close>

lemma float32_16777216: "float32 16777216 = 16777216"
  using float32_exponent [of 24 16777216] by (simp add: round_half_even_def)

lemma float32_16777217: "float32 16777217 = 16777216"
  using float32_exponent [of 24 16777217] by (simp add: round_half_even_def)

section \<open>Evaluation rules for the concrete agents\<close>

lemma demo_sel:
  "forward demo_collaborators = (\<lambda>p x. ([3, - 2, 1 / 2], [0, 0, 0], sum_list (data x)))"
  "mvn_args_ok demo_collaborators = (\<lambda>m cov. shape cov = [length (data m), length (data m)])"
  "mvn_sample demo_collaborators = (\<lambda>g d. (loc d, g))"
  "mvn_log_prob demo_collaborators = (\<lambda>d x. Inr 0)"
  "smooth_l1_loss demo_collaborators =
     (\<lambda>xs ys. if length xs = length ys then Inr 0 else Inl RuntimeError)"
  "optimizer_step demo_collaborators =
     (\<lambda>p l. case l of NStepLoss tr td \<Rightarrow> p @ [td] | TDLoss x act r x' \<Rightarrow> p)"
  "env_reset demo_collaborators = (\<lambda>e. (\<lparr>shape = [2], data = [0, 0]\<rparr>, 0))"
  "env_step demo_collaborators =
     (\<lambda>e act. ((\<lparr>shape = [2], data = [real (e + 1), 0]\<rparr>, real (e + 1), 2 \<le> e + 1), e + 1))"
  by (simp_all add: demo_collaborators_def)

lemma demo_arith:
  "as_tensor demo_collaborators = (\<lambda>x. x)"
  "add_tt demo_collaborators = (\<lambda>a b. a + b)"
  "add_ts demo_collaborators = (\<lambda>a b. a + b)"
  "mul_ts demo_collaborators = (\<lambda>a b. a * b)"
  "sub_tt demo_collaborators = (\<lambda>a b. a - b)"
  "pow_2 demo_collaborators = (\<lambda>a. a ^ 2)"
  "t_mean demo_collaborators = mean"
  by (simp_all add: demo_collaborators_def)

lemma demo_exact: "exact_arithmetic demo_collaborators"
  by (simp add: exact_arithmetic_def demo_arith)

lemma demo_f32_sel:
  "forward demo_f32 = (\<lambda>p x. ([3, - 2, 1 / 2], [0, 0, 0], sum_list (data x)))"
  "mvn_args_ok demo_f32 = (\<lambda>m cov. shape cov = [length (data m), length (data m)])"
  "mvn_log_prob demo_f32 = (\<lambda>d x. Inr 0)"
  "optimizer_step demo_f32 =
     (\<lambda>p l. case l of NStepLoss tr td \<Rightarrow> p @ [td] | TDLoss x act r x' \<Rightarrow> p)"
  "as_tensor demo_f32 = float32"
  "add_tt demo_f32 = f32_add"
  "add_ts demo_f32 = f32_add_scalar"
  "mul_ts demo_f32 = f32_mul_scalar"
  "sub_tt demo_f32 = f32_sub"
  "pow_2 demo_f32 = f32_pow2"
  "t_mean demo_f32 = f32_mean"
  by (simp_all add: demo_f32_def demo_sel)

section \<open>Preprocessing of observations\<close>

lemma prod_list_rev3:
  "length xs = 3 \<Longrightarrow> prod_list [xs ! 2, xs ! 1, xs ! 0] = prod_list (xs :: nat list)"
  by (cases xs; cases "tl xs"; cases "tl (tl xs)") (auto simp: mult.commute mult.left_commute)

text \<open>On a NumPy array \<open>preproc_obs\<close> never fails.\<close>

lemma preproc_obs_NdArray:
  assumes "wf_array t"
  shows "preproc_obs (NdArray t) =
           Inr (to_float
                 (if length (shape t) = 3
                  then unsqueeze0 (np_resize \<lparr>shape = [shape t ! 2, shape t ! 1, shape t ! 0],
                                             data = data t\<rparr> [3, 84, 84])
                  else unsqueeze0 t))"
proof (cases "length (shape t) = 3")
  case True
  then have "prod_list [shape t ! 2, shape t ! 1, shape t ! 0] = length (data t)"
    using assms prod_list_rev3 [of "shape t"] by (simp only: wf_array_def)
  with True show ?thesis
    by (simp add: preproc_obs_def np_reshape_def)
next
  case False
  then show ?thesis by (simp add: preproc_obs_def)
qed

lemma preproc_obs_total:
  "wf_array t \<Longrightarrow> \<exists>x. preproc_obs (NdArray t) = Inr x"
  by (simp add: preproc_obs_NdArray)

lemma preproc_obs_pair:
  "preproc_obs (NdArray \<lparr>shape = [2], data = [z, 0]\<rparr>)
     = Inr \<lparr>shape = [1, 2], data = [float32 z, 0]\<rparr>"
  by (simp add: preproc_obs_def unsqueeze0_def to_float_def)

section \<open>The n-step return\<close>

lemma n_step_loop_Nil: "n_step_loop C g g0 [] = (g0, [])"
  by (simp add: n_step_loop_def)

lemma n_step_loop_Cons:
  "n_step_loop C g g0 (r # rs) =
     (let g' = (case fst (n_step_loop C g g0 rs) of
                  PyNum z \<Rightarrow> add_ts C (as_tensor C r) (g * z)
                | TensorVal v \<Rightarrow> add_tt C (as_tensor C r) (mul_ts C v g))
      in (TensorVal g', g' # snd (n_step_loop C g g0 rs)))"
  by (simp add: n_step_loop_def Let_def split: prod.splits)

lemma length_n_step_loop: "length (snd (n_step_loop C g g0 rs)) = length rs"
  by (induction rs) (simp_all add: n_step_loop_Nil n_step_loop_Cons Let_def)

lemma fst_n_step_loop:
  "fst (n_step_loop C g g0 rs) =
     (if rs = [] then g0 else TensorVal (snd (n_step_loop C g g0 rs) ! 0))"
  by (cases rs) (simp_all add: n_step_loop_Nil n_step_loop_Cons Let_def)

text \<open>
  The backward recurrence in the arithmetic of the tensors, read off the list the loop
  builds: every return but the last is computed from its reward and the next return.
\<close>

lemma n_step_loop_recurrence:
  "Suc t < length rs \<Longrightarrow>
     snd (n_step_loop C g g0 rs) ! t =
       add_tt C (as_tensor C (rs ! t)) (mul_ts C (snd (n_step_loop C g g0 rs) ! Suc t) g)"
proof (induction rs arbitrary: t)
  case Nil
  then show ?case by simp
next
  case (Cons r rs)
  show ?case
  proof (cases t)
    case 0
    with Cons.prems have "rs \<noteq> []" by auto
    with 0 show ?thesis
      by (simp add: n_step_loop_Cons fst_n_step_loop Let_def)
  next
    case (Suc u)
    with Cons show ?thesis
      by (simp add: n_step_loop_Cons Let_def)
  qed
qed

text \<open>The last return is computed from the last reward and the starting value.\<close>

lemma n_step_loop_last:
  "rs \<noteq> [] \<Longrightarrow>
     snd (n_step_loop C g g0 rs) ! (length rs - 1) =
       (case g0 of
          PyNum z \<Rightarrow> add_ts C (as_tensor C (rs ! (length rs - 1))) (g * z)
        | TensorVal v \<Rightarrow> add_tt C (as_tensor C (rs ! (length rs - 1))) (mul_ts C v g))"
proof (induction rs)
  case Nil
  then show ?case by simp
next
  case (Cons r rs)
  show ?case
  proof (cases "rs = []")
    case True
    then show ?thesis
      by (simp add: n_step_loop_Cons n_step_loop_Nil Let_def split: number.splits)
  next
    case False
    then have "length (r # rs) - 1 = Suc (length rs - 1)"
      by simp
    with Cons.IH [OF False] False show ?thesis
      by (simp add: n_step_loop_Cons Let_def split: number.splits)
  qed
qed

text \<open>
  Without rounding the loop computes the discounted sums: the return at \<open>t\<close> is the sum
  of the later rewards, discounted, plus the discounted starting value.
\<close>

lemma n_step_loop_exact_Cons:
  assumes "exact_arithmetic C"
  shows "snd (n_step_loop C g g0 (r # rs)) =
           (r + g * (if rs = [] then (case g0 of PyNum z \<Rightarrow> z | TensorVal v \<Rightarrow> v)
                     else snd (n_step_loop C g g0 rs) ! 0))
           # snd (n_step_loop C g g0 rs)"
  using assms
  by (cases g0)
    (simp_all add: n_step_loop_Cons fst_n_step_loop Let_def exact_arithmetic_def mult.commute)

lemma n_step_loop_exact_recurrence:
  assumes "exact_arithmetic C" and "t < length rs"
  shows "snd (n_step_loop C g g0 rs) ! t =
           rs ! t + g * (if Suc t < length rs then snd (n_step_loop C g g0 rs) ! Suc t
                         else (case g0 of PyNum z \<Rightarrow> z | TensorVal v \<Rightarrow> v))"
  using assms(2)
proof (induction rs arbitrary: t)
  case Nil
  then show ?case by simp
next
  case (Cons r rs)
  show ?case
  proof (cases t)
    case 0
    then show ?thesis
      by (simp add: n_step_loop_exact_Cons [OF assms(1)])
  next
    case (Suc u)
    with Cons show ?thesis
      by (simp add: n_step_loop_exact_Cons [OF assms(1)])
  qed
qed

lemma n_step_loop_exact_sum:
  assumes "exact_arithmetic C" and "t < length rs"
  shows "snd (n_step_loop C g g0 rs) ! t =
           (\<Sum>k<length rs - t. g ^ k * rs ! (t + k))
           + g ^ (length rs - t) * (case g0 of PyNum z \<Rightarrow> z | TensorVal v \<Rightarrow> v)"
  using assms(2)
proof (induction rs arbitrary: t)
  case Nil
  then show ?case by simp
next
  case (Cons r rs)
  let ?b = "case g0 of PyNum z \<Rightarrow> z | TensorVal v \<Rightarrow> v"
  show ?case
  proof (cases t)
    case 0
    show ?thesis
    proof (cases "rs = []")
      case True
      with 0 show ?thesis by (simp add: n_step_loop_exact_Cons [OF assms(1)])
    next
      case False
      then have h: "snd (n_step_loop C g g0 rs) ! 0 =
          (\<Sum>k<length rs. g ^ k * rs ! k) + g ^ length rs * ?b"
        using Cons.IH [of 0] by simp
      have "(\<Sum>k<Suc (length rs). g ^ k * (r # rs) ! k) =
          r + g * (\<Sum>k<length rs. g ^ k * rs ! k)"
        by (simp add: sum.lessThan_Suc_shift sum_distrib_left algebra_simps
            del: sum.lessThan_Suc)
      with 0 False h show ?thesis
        by (simp add: n_step_loop_exact_Cons [OF assms(1)] algebra_simps
            del: sum.lessThan_Suc)
    qed
  next
    case (Suc u)
    with Cons show ?thesis
      by (simp add: n_step_loop_exact_Cons [OF assms(1)])
  qed
qed

text \<open>The argument \<^verbatim>\<open>gamma\<close> has no influence on the result.\<close>

lemma calculate_n_step_return_gamma_arg:
  "calculate_n_step_return C self rs final_state terminal g1 =
   calculate_n_step_return C self rs final_state terminal g2"
  by (simp add: calculate_n_step_return_def)

lemma demo_calc:
  "calculate_n_step_return demo_collaborators self rs
     (NdArray \<lparr>shape = [2], data = [z, 0]\<rparr>) terminal g
    = Inr (snd (n_step_loop demo_collaborators (gamma self)
             (if terminal then PyNum 0 else TensorVal (float32 z)) rs))"
  by (simp add: calculate_n_step_return_def preproc_obs_pair demo_sel)

lemma demo_loop_Cons:
  "snd (n_step_loop demo_collaborators g g0 (r # rs)) =
           (r + g * (if rs = [] then (case g0 of PyNum z \<Rightarrow> z | TensorVal v \<Rightarrow> v)
                     else snd (n_step_loop demo_collaborators g g0 rs) ! 0))
           # snd (n_step_loop demo_collaborators g g0 rs)"
  by (rule n_step_loop_exact_Cons [OF demo_exact])

text \<open>
  Claim C1 as stated fails: the returns are computed in the arithmetic of float32
  tensors, not in exact arithmetic. For the rewards 1 and \<open>2 ^ 24\<close> with discount 1 and a
  terminal final state the discounted sum at index 0 is \<open>2 ^ 24 + 1\<close>, which is not a
  float32 value; the code returns \<open>2 ^ 24\<close> there.
\<close>

theorem calculate_n_step_return_counterexample:
  "calculate_n_step_return demo_f32 (demo_agent\<lparr>gamma := 1\<rparr>) [1, 16777216]
       (NdArray \<lparr>shape = [2], data = [0, 0]\<rparr>) True 1
     = Inr [16777216, 16777216]
   \<and> [16777216, 16777216] \<noteq> [1 + 1 * 16777216, 16777216 :: real]"
  by (simp add: calculate_n_step_return_def n_step_loop_Cons n_step_loop_Nil Let_def
      demo_f32_sel f32_add_def f32_add_scalar_def f32_mul_scalar_def
      float32_16777216 float32_16777217)

text \<open>
  Claim C1, amended. For every reward list \<open>rs\<close> of length \<open>n\<close>, terminal flag, discount
  (the agent's \<open>gamma\<close>) and final state (a NumPy observation), \<open>calculate_n_step_return\<close>
  returns the list \<open>G\<close> of length \<open>n\<close> of the backward recurrence in the arithmetic of the
  tensors, where every operation rounds its result: each return before the last is
  \<open>tensor (rs ! t) + G ! (t + 1) * gamma\<close>; the last one is \<open>tensor (rs ! (n - 1)) + 0\<close>
  when terminal and \<open>tensor (rs ! (n - 1)) + V(final_state) * gamma\<close> otherwise, with
  \<open>V(final_state)\<close> the critic output at the preprocessed final state. When no operation
  rounds (exact arithmetic) this is the recurrence \<open>G ! t = rs ! t + gamma * G ! (t + 1)\<close>
  with \<open>G_n = 0\<close> if terminal and \<open>G_n = V(final_state)\<close> otherwise: then every \<open>G ! t\<close> is
  the discounted sum of the rewards from \<open>t\<close> on plus the discounted \<open>G_n\<close>, when terminal
  the last return is the last reward, and otherwise it is the last reward plus
  \<open>gamma * V(final_state)\<close>.
\<close>

theorem calculate_n_step_return_recurrence:
  assumes "wf_array final_state"
    and "n = length rs"
  shows "\<exists>x G. preproc_obs (NdArray final_state) = Inr x
           \<and> calculate_n_step_return C self rs (NdArray final_state) terminal gamma_arg = Inr G
           \<and> length G = n
           \<and> (\<forall>t. Suc t < n \<longrightarrow>
                G ! t = add_tt C (as_tensor C (rs ! t)) (mul_ts C (G ! Suc t) (gamma self)))
           \<and> (0 < n \<longrightarrow>
                G ! (n - 1) =
                  (if terminal then add_ts C (as_tensor C (rs ! (n - 1))) 0
                   else add_tt C (as_tensor C (rs ! (n - 1)))
                          (mul_ts C (snd (snd (forward C (actor_critic self) x)))
                             (gamma self))))
           \<and> (exact_arithmetic C \<longrightarrow>
                (\<forall>t<n. G ! t = rs ! t + gamma self *
                    (if Suc t < n then G ! Suc t
                     else if terminal then 0
                          else snd (snd (forward C (actor_critic self) x))))
              \<and> (\<forall>t<n. G ! t = (\<Sum>k<n - t. gamma self ^ k * rs ! (t + k))
                    + gamma self ^ (n - t) *
                      (if terminal then 0 else snd (snd (forward C (actor_critic self) x))))
              \<and> (terminal \<longrightarrow> (\<forall>t<n. G ! t = (\<Sum>k<n - t. gamma self ^ k * rs ! (t + k))))
              \<and> (terminal \<and> 0 < n \<longrightarrow> G ! (n - 1) = rs ! (n - 1))
              \<and> (\<not> terminal \<and> 0 < n \<longrightarrow>
                   G ! (n - 1) = rs ! (n - 1)
                     + gamma self * snd (snd (forward C (actor_critic self) x))))"
proof -
  from assms(1) obtain x where x: "preproc_obs (NdArray final_state) = Inr x"
    using preproc_obs_total by blast
  let ?V = "snd (snd (forward C (actor_critic self) x))"
  define g0 where "g0 = (if terminal then PyNum 0 else TensorVal ?V)"
  let ?G = "snd (n_step_loop C (gamma self) g0 rs)"
  have b: "(case g0 of PyNum z \<Rightarrow> z | TensorVal v \<Rightarrow> v) = (if terminal then 0 else ?V)"
    by (simp add: g0_def)
  have eq: "calculate_n_step_return C self rs (NdArray final_state) terminal gamma_arg = Inr ?G"
    using x by (simp add: calculate_n_step_return_def g0_def)
  have len: "length ?G = n"
    using assms(2) by (simp add: length_n_step_loop)
  have rec: "\<forall>t. Suc t < n \<longrightarrow>
      ?G ! t = add_tt C (as_tensor C (rs ! t)) (mul_ts C (?G ! Suc t) (gamma self))"
    using assms(2) n_step_loop_recurrence by blast
  have lst: "0 < n \<longrightarrow>
      ?G ! (n - 1) =
        (if terminal then add_ts C (as_tensor C (rs ! (n - 1))) 0
         else add_tt C (as_tensor C (rs ! (n - 1))) (mul_ts C ?V (gamma self)))"
    using assms(2) n_step_loop_last [of rs C "gamma self" g0] by (simp add: g0_def)
  have ex: "(\<forall>t<n. ?G ! t = rs ! t + gamma self *
                    (if Suc t < n then ?G ! Suc t else if terminal then 0 else ?V))
      \<and> (\<forall>t<n. ?G ! t = (\<Sum>k<n - t. gamma self ^ k * rs ! (t + k))
                    + gamma self ^ (n - t) * (if terminal then 0 else ?V))
      \<and> (terminal \<longrightarrow> (\<forall>t<n. ?G ! t = (\<Sum>k<n - t. gamma self ^ k * rs ! (t + k))))
      \<and> (terminal \<and> 0 < n \<longrightarrow> ?G ! (n - 1) = rs ! (n - 1))
      \<and> (\<not> terminal \<and> 0 < n \<longrightarrow> ?G ! (n - 1) = rs ! (n - 1) + gamma self * ?V)"
    if e: "exact_arithmetic C"
  proof -
    have r1: "\<forall>t<n. ?G ! t = rs ! t + gamma self *
                    (if Suc t < n then ?G ! Suc t else if terminal then 0 else ?V)"
      using n_step_loop_exact_recurrence [OF e, of _ rs "gamma self" g0] assms(2) b
      by (cases terminal) simp_all
    have r2: "\<forall>t<n. ?G ! t = (\<Sum>k<n - t. gamma self ^ k * rs ! (t + k))
                    + gamma self ^ (n - t) * (if terminal then 0 else ?V)"
      using n_step_loop_exact_sum [OF e, of _ rs "gamma self" g0] assms(2) b
      by (cases terminal) simp_all
    have r3: "terminal \<longrightarrow> (\<forall>t<n. ?G ! t = (\<Sum>k<n - t. gamma self ^ k * rs ! (t + k)))"
      using r2 by (cases terminal) simp_all
    have r4: "terminal \<and> 0 < n \<longrightarrow> ?G ! (n - 1) = rs ! (n - 1)"
      using r1 by (cases terminal) simp_all
    have r5: "\<not> terminal \<and> 0 < n \<longrightarrow> ?G ! (n - 1) = rs ! (n - 1) + gamma self * ?V"
      using r1 by (cases terminal) simp_all
    from r1 r2 r3 r4 r5 show ?thesis by blast
  qed
  from x eq len rec lst ex show ?thesis
    by blast
qed

text \<open>
  In exact arithmetic the two scenarios of the specification come out as stated: rewards
  1, 1, 1 with discount 1/2, terminal, give 7/4, 3/2, 1; the single reward 2 with discount
  9/10 and value 10 at the final state, not terminal, gives 11.
\<close>

theorem calculate_n_step_return_recurrence_witness:
  "wf_array \<lparr>shape = [2], data = [10, 0]\<rparr> \<and> (3::nat) = length [1::real, 1, 1]
   \<and> exact_arithmetic demo_collaborators
   \<and> calculate_n_step_return demo_collaborators demo_agent [1, 1, 1]
        (NdArray \<lparr>shape = [2], data = [10, 0]\<rparr>) True (1 / 2) = Inr [7 / 4, 3 / 2, 1]
   \<and> calculate_n_step_return demo_collaborators (demo_agent\<lparr>gamma := 9 / 10\<rparr>) [2]
        (NdArray \<lparr>shape = [2], data = [10, 0]\<rparr>) False (9 / 10) = Inr [11]"
proof -
  have wf: "wf_array \<lparr>shape = [2], data = [10, 0]\<rparr>"
    by (simp add: wf_array_def)
  have n3: "(3::nat) = length [1::real, 1, 1]" and n1: "(1::nat) = length [2::real]"
    by simp_all
  have g: "gamma demo_agent = 1 / 2"
    by (simp add: demo_agent_def)
  from calculate_n_step_return_recurrence [OF wf n3, of demo_collaborators demo_agent True "1 / 2"]
    demo_exact
  obtain G where G: "calculate_n_step_return demo_collaborators demo_agent [1, 1, 1]
        (NdArray \<lparr>shape = [2], data = [10, 0]\<rparr>) True (1 / 2) = Inr G"
    "length G = 3"
    "\<forall>t<3. G ! t = [1, 1, 1] ! t + gamma demo_agent * (if Suc t < 3 then G ! Suc t else 0)"
    by auto
  have "G ! 2 = 1" using G(3) by simp
  moreover have "G ! 1 = 3 / 2" using G(3) g calculation by (simp add: numeral_2_eq_2)
  moreover have "G ! 0 = 7 / 4" using G(3) g calculation by simp
  ultimately have G_eq: "G = [7 / 4, 3 / 2, 1]"
    using G(2)
    by (intro nth_equalityI) (auto simp: less_Suc_eq numeral_3_eq_3 numeral_2_eq_2)
  from calculate_n_step_return_recurrence [OF wf n1, of demo_collaborators
      "demo_agent\<lparr>gamma := 9 / 10\<rparr>" False "9 / 10"] demo_exact
  obtain x H where H: "preproc_obs (NdArray \<lparr>shape = [2], data = [10, 0]\<rparr>) = Inr x"
    "calculate_n_step_return demo_collaborators (demo_agent\<lparr>gamma := 9 / 10\<rparr>) [2]
        (NdArray \<lparr>shape = [2], data = [10, 0]\<rparr>) False (9 / 10) = Inr H"
    "length H = 1"
    "H ! 0 = 2 + 9 / 10 * snd (snd (forward demo_collaborators
                (actor_critic (demo_agent\<lparr>gamma := 9 / 10\<rparr>)) x))"
    by auto
  have "x = \<lparr>shape = [1, 2], data = [10, 0]\<rparr>"
    using H(1) by (simp add: preproc_obs_pair)
  then have "H ! 0 = 11" using H(4) by (simp add: demo_sel)
  then have H_eq: "H = [11]"
    using H(3) by (intro nth_equalityI) auto
  from wf n3 demo_exact G(1) G_eq H(2) H_eq show ?thesis by simp
qed

text \<open>
  Claim C10. The list returned by \<open>calculate_n_step_return\<close> has the length of the
  reward list, and for the empty reward list the result is the empty list, also when the
  terminal flag is False: the bootstrap value is computed and dropped. The entries are
  aligned with the rewards, index 0 being the return of the earliest step: the return at
  \<open>t\<close> is computed from the reward at \<open>t\<close> and the return at \<open>t + 1\<close>, and in exact arithmetic
  the entry 0 is the discounted sum of all rewards plus the discounted bootstrap.
\<close>

theorem calculate_n_step_return_length:
  assumes "wf_array final_state"
  shows "\<exists>x G. preproc_obs (NdArray final_state) = Inr x
           \<and> calculate_n_step_return C self rs (NdArray final_state) terminal gamma_arg = Inr G
           \<and> length G = length rs
           \<and> (rs = [] \<longrightarrow> G = [])
           \<and> (\<forall>t. Suc t < length rs \<longrightarrow>
                G ! t = add_tt C (as_tensor C (rs ! t)) (mul_ts C (G ! Suc t) (gamma self)))
           \<and> (exact_arithmetic C \<and> rs \<noteq> [] \<longrightarrow>
                G ! 0 = (\<Sum>k<length rs. gamma self ^ k * rs ! k)
                  + gamma self ^ length rs *
                    (if terminal then 0 else snd (snd (forward C (actor_critic self) x))))"
proof -
  from assms obtain x where x: "preproc_obs (NdArray final_state) = Inr x"
    using preproc_obs_total by blast
  let ?V = "snd (snd (forward C (actor_critic self) x))"
  define g0 where "g0 = (if terminal then PyNum 0 else TensorVal ?V)"
  let ?G = "snd (n_step_loop C (gamma self) g0 rs)"
  have b: "(case g0 of PyNum z \<Rightarrow> z | TensorVal v \<Rightarrow> v) = (if terminal then 0 else ?V)"
    by (simp add: g0_def)
  have eq: "calculate_n_step_return C self rs (NdArray final_state) terminal gamma_arg = Inr ?G"
    using x by (simp add: calculate_n_step_return_def g0_def)
  have len: "length ?G = length rs"
    by (rule length_n_step_loop)
  have emp: "rs = [] \<longrightarrow> ?G = []"
    by (simp add: n_step_loop_Nil)
  have rec: "\<forall>t. Suc t < length rs \<longrightarrow>
      ?G ! t = add_tt C (as_tensor C (rs ! t)) (mul_ts C (?G ! Suc t) (gamma self))"
    using n_step_loop_recurrence by blast
  have first: "exact_arithmetic C \<and> rs \<noteq> [] \<longrightarrow>
      ?G ! 0 = (\<Sum>k<length rs. gamma self ^ k * rs ! k)
                 + gamma self ^ length rs * (if terminal then 0 else ?V)"
    using n_step_loop_exact_sum [of C 0 rs "gamma self" g0] b by auto
  from x eq len emp rec first show ?thesis
    by blast
qed

text \<open>
  The empty reward list gives the empty list although the final state has value 10 and
  the flag is False; the rewards 1, 1, 1 with discount 1/2, terminal, give three returns,
  the first being 7/4.
\<close>

theorem calculate_n_step_return_length_witness:
  "wf_array \<lparr>shape = [2], data = [10, 0]\<rparr>
   \<and> calculate_n_step_return demo_collaborators demo_agent []
        (NdArray \<lparr>shape = [2], data = [10, 0]\<rparr>) False (1 / 2) = Inr []
   \<and> exact_arithmetic demo_collaborators
   \<and> map_sum id (\<lambda>G. (length G, G ! 0))
        (calculate_n_step_return demo_collaborators demo_agent [1, 1, 1]
           (NdArray \<lparr>shape = [2], data = [10, 0]\<rparr>) True (1 / 2)) = Inr (3, 7 / 4)"
proof -
  have wf: "wf_array \<lparr>shape = [2], data = [10, 0]\<rparr>"
    by (simp add: wf_array_def)
  from calculate_n_step_return_length [OF wf, of demo_collaborators demo_agent "[]"
      False "1 / 2"]
  have e: "calculate_n_step_return demo_collaborators demo_agent []
        (NdArray \<lparr>shape = [2], data = [10, 0]\<rparr>) False (1 / 2) = Inr []"
    by auto
  from calculate_n_step_return_length [OF wf, of demo_collaborators demo_agent "[1, 1, 1]"
      True "1 / 2"] demo_exact
  obtain G where G: "calculate_n_step_return demo_collaborators demo_agent [1, 1, 1]
        (NdArray \<lparr>shape = [2], data = [10, 0]\<rparr>) True (1 / 2) = Inr G"
    "length G = length [1, 1, 1 :: real]"
    "G ! 0 = (\<Sum>k<length [1, 1, 1 :: real]. gamma demo_agent ^ k * [1, 1, 1] ! k)
               + gamma demo_agent ^ length [1, 1, 1 :: real] * 0"
    by auto
  have "G ! 0 = 7 / 4"
    using G(3) by (simp add: demo_agent_def lessThan_Suc power2_eq_square)
  with G(1,2) have "map_sum id (\<lambda>G. (length G, G ! 0))
        (calculate_n_step_return demo_collaborators demo_agent [1, 1, 1]
           (NdArray \<lparr>shape = [2], data = [10, 0]\<rparr>) True (1 / 2)) = Inr (3, 7 / 4)"
    by simp
  with wf e demo_exact show ?thesis by simp
qed

section \<open>What preprocessing does to an image\<close>

lemma np_resize_larger:
  assumes "prod_list sh \<le> length (data b)" and "0 < prod_list sh"
  shows "np_resize b sh = \<lparr>shape = sh, data = take (prod_list sh) (data b)\<rparr>"
proof -
  have "(prod_list sh + length (data b) - 1) div length (data b) = 1"
    using assms by (simp add: div_nat_eqI)
  moreover have "data b \<noteq> []"
    using assms by auto
  ultimately show ?thesis
    using assms by (simp add: np_resize_def Let_def)
qed

lemma np_resize_same_size:
  assumes "length (data b) = prod_list sh" and "0 < prod_list sh"
  shows "np_resize b sh = \<lparr>shape = sh, data = data b\<rparr>"
  using assms np_resize_larger [of sh b] by simp

text \<open>Whatever the number of channels of the image, the result has three.\<close>

lemma preproc_obs_image_shape:
  assumes "preproc_obs (NdArray t) = Inr x" and "length (shape t) = 3"
  shows "shape x = [1, 3, 84, 84]"
  using assms
  by (auto simp: preproc_obs_def np_reshape_def np_resize_def unsqueeze0_def to_float_def
      Let_def split: if_splits)

text \<open>
  An 84 by 84 image with 3 channels keeps its flat element sequence, each element
  converted to float32.
\<close>

lemma preproc_obs_canonical:
  assumes "shape t = [84, 84, 3]" and "length (data t) = 21168"
  shows "preproc_obs (NdArray t)
           = Inr \<lparr>shape = [1, 3, 84, 84], data = map float32 (data t)\<rparr>"
proof -
  have "wf_array t" using assms by (simp add: wf_array_def)
  moreover have "np_resize \<lparr>shape = [3, 84, 84], data = data t\<rparr> [3, 84, 84]
      = \<lparr>shape = [3, 84, 84], data = data t\<rparr>"
    using assms by (simp add: np_resize_same_size)
  ultimately show ?thesis
    using assms by (simp add: preproc_obs_NdArray unsqueeze0_def to_float_def)
qed

text \<open>
  A 96 by 96 image with 3 channels (a frame of CarRacing-v0, the default environment) is
  cut to its first 21168 flat elements.
\<close>

lemma preproc_obs_car_racing:
  assumes "shape t = [96, 96, 3]" and "length (data t) = 27648"
  shows "preproc_obs (NdArray t)
           = Inr \<lparr>shape = [1, 3, 84, 84], data = map float32 (take 21168 (data t))\<rparr>"
proof -
  have "wf_array t" using assms by (simp add: wf_array_def)
  moreover have "np_resize \<lparr>shape = [3, 96, 96], data = data t\<rparr> [3, 84, 84]
      = \<lparr>shape = [3, 84, 84], data = take 21168 (data t)\<rparr>"
    using assms np_resize_larger [of "[3, 84, 84]" "\<lparr>shape = [3, 96, 96], data = data t\<rparr>"]
    by simp
  ultimately show ?thesis
    using assms by (simp add: preproc_obs_NdArray unsqueeze0_def to_float_def)
qed

lemma preproc_obs_Tensor_not_image:
  "length (shape t) \<noteq> 3 \<Longrightarrow> preproc_obs (Tensor t) = Inl TypeError"
  by (simp add: preproc_obs_def)

text \<open>
  Claim C5 (the code departs from it). The claim asks for the axes of an image to be
  reordered to channel-first and for the image to be resized to 84 by 84. The source
  calls \<^verbatim>\<open>np.reshape\<close>, which relabels the flat element sequence instead of permuting
  the axes, and \<^verbatim>\<open>np.resize\<close>, which repeats or cuts the flat sequence instead of
  resampling the image. On the 96 by 96 frame whose only non-zero entry is channel 1 of
  the top-left pixel (flat position 1), the result carries that entry at flat position 1,
  which is position (0, 1) of channel 0, although channel 0 of the frame is all zero; and
  only the first 21168 of the 27648 elements of the frame reach the result.
\<close>

theorem preproc_obs_relabels_and_cuts:
  "preproc_obs (NdArray \<lparr>shape = [96, 96, 3], data = 0 # 1 # replicate 27646 0\<rparr>)
     = Inr \<lparr>shape = [1, 3, 84, 84], data = 0 # 1 # replicate 21166 0\<rparr>"
  by (simp add: preproc_obs_car_racing)

text \<open>
  Claim C6 as stated fails: the second application of \<open>preproc_obs\<close> receives a torch
  tensor of rank 4, on which \<^verbatim>\<open>torch.from_numpy\<close> raises TypeError.
\<close>

theorem preproc_obs_twice_counterexample:
  "preproc_twice (NdArray \<lparr>shape = [84, 84, 3], data = replicate 21168 0\<rparr>)
     \<noteq> preproc_obs (NdArray \<lparr>shape = [84, 84, 3], data = replicate 21168 0\<rparr>)"
  by (simp add: preproc_twice_def preproc_obs_canonical preproc_obs_Tensor_not_image)

text \<open>
  Claim C6, amended. On an 84 by 84 by 3 NumPy observation \<open>preproc_obs\<close> returns a torch
  tensor of shape (1, 3, 84, 84). It cannot be applied to that tensor: the second
  application raises TypeError. Applied to the NumPy array of that shape, it returns a
  tensor of shape (1, 1, 3, 84, 84): the second application adds another batch
  dimension. (Which element of the observation sits where in the result is not part of
  this statement.)
\<close>

theorem preproc_obs_second_application:
  assumes "shape t = [84, 84, 3]" and "length (data t) = 21168"
  shows "\<exists>t1 t2. preproc_obs (NdArray t) = Inr t1
           \<and> shape t1 = [1, 3, 84, 84] \<and> length (data t1) = 21168
           \<and> preproc_twice (NdArray t) = Inl TypeError
           \<and> preproc_obs (NdArray t1) = Inr t2
           \<and> shape t2 = [1, 1, 3, 84, 84] \<and> length (data t2) = 21168"
proof -
  let ?t1 = "\<lparr>shape = [1, 3, 84, 84], data = map float32 (data t)\<rparr>"
  let ?t2 = "\<lparr>shape = [1, 1, 3, 84, 84], data = map float32 (map float32 (data t))\<rparr>"
  have once: "preproc_obs (NdArray t) = Inr ?t1"
    using assms by (rule preproc_obs_canonical)
  have twice: "preproc_twice (NdArray t) = Inl TypeError"
    by (simp add: preproc_twice_def once preproc_obs_Tensor_not_image)
  have view: "preproc_obs (NdArray ?t1) = Inr ?t2"
    by (simp add: preproc_obs_def unsqueeze0_def to_float_def)
  from once twice view assms(2) show ?thesis
    by (intro exI [of _ ?t1] exI [of _ ?t2]) simp
qed

theorem preproc_obs_second_application_witness:
  "shape \<lparr>shape = [84, 84, 3], data = replicate 21168 0\<rparr> = [84, 84, 3]
   \<and> length (data \<lparr>shape = [84, 84, 3], data = replicate 21168 0\<rparr>) = 21168
   \<and> preproc_obs (NdArray \<lparr>shape = [84, 84, 3], data = replicate 21168 0\<rparr>)
        = Inr \<lparr>shape = [1, 3, 84, 84], data = replicate 21168 0\<rparr>
   \<and> preproc_twice (NdArray \<lparr>shape = [84, 84, 3], data = replicate 21168 0\<rparr>) = Inl TypeError"
proof -
  have h1: "shape \<lparr>shape = [84, 84, 3], data = replicate 21168 0\<rparr> = [84, 84, 3]"
    and h2: "length (data \<lparr>shape = [84, 84, 3], data = replicate 21168 0\<rparr>) = 21168"
    by simp_all
  from preproc_obs_second_application [OF h1 h2]
  have "preproc_twice (NdArray \<lparr>shape = [84, 84, 3], data = replicate 21168 0\<rparr>)
      = Inl TypeError"
    by blast
  moreover have "preproc_obs (NdArray \<lparr>shape = [84, 84, 3], data = replicate 21168 0\<rparr>)
        = Inr \<lparr>shape = [1, 3, 84, 84], data = replicate 21168 0\<rparr>"
    by (simp add: preproc_obs_canonical)
  ultimately show ?thesis by simp
qed

section \<open>What postprocessing does to an action\<close>

text \<open>
  A sampled action is a vector, possibly with dimensions of size 1 around it. After
  \<^verbatim>\<open>squeeze\<close> its rank is at most 1, so neither guard of \<open>process_action\<close> holds and the
  elements are returned as they are.
\<close>

lemma process_action_vector:
  assumes "length (filter (\<lambda>d. d \<noteq> 1) (shape t)) \<le> 1"
  shows "\<exists>t'. process_action t = Inr t' \<and> data t' = data t"
  using assms
  by (auto simp: process_action_def squeeze_def unsqueeze0_def Let_def)

text \<open>
  Claim C3 (the code departs from it). For the action space of size 3 and the sampled
  action 0.5, -0.2, 1.5 the claim asks for 0.5, 0.0, 1.0001. The guards of the source
  compare the rank of the tensor (\<^verbatim>\<open>len(action.shape)\<close>) with 1 and 2, not the size of
  the action space, so the vector is returned unclamped.
\<close>

theorem process_action_unclamped:
  "process_action \<lparr>shape = [3], data = [1 / 2, - (1 / 5), 3 / 2]\<rparr>
     = Inr \<lparr>shape = [3], data = [1 / 2, - (1 / 5), 3 / 2]\<rparr>"
  by (simp add: process_action_def squeeze_def unsqueeze0_def Let_def)

section \<open>The policy wrapper\<close>

lemma clamp_bounds: "lo \<le> hi \<Longrightarrow> lo \<le> clamp z lo hi \<and> clamp z lo hi \<le> hi"
  by (simp add: clamp_def)


text \<open>What a successful call of the policy stores and returns.\<close>

lemma policy_fields:
  assumes "multi_variate_gaussian_policy C self x = Inr (d, self')"
  shows "loc d = mu self'"
    and "data (mu self') = map (\<lambda>m. clamp m (- 1) 1) (fst (forward C (actor_critic self) x))"
    and "value self' = snd (snd (forward C (actor_critic self) x))"
    and "data (sigma self') =
           map (\<lambda>z. softplus z + 1 / 10 ^ 7) (fst (snd (forward C (actor_critic self) x)))"
    and "self' = self\<lparr>mu := mu self', sigma := sigma self', value := value self'\<rparr>"
  using assms
  by (auto simp: multi_variate_gaussian_policy_def MultivariateNormal_def Let_def squeeze_def
      unsqueeze0_def split: prod.splits sum.splits if_splits)








lemma demo_policy_eval:
  assumes "action_shape self = 3"
    and "forward C = (\<lambda>p x. ([3, - 2, 1 / 2], [0, 0, 0], v x))"
    and "mvn_args_ok C (loc demo_dist) (covariance_matrix demo_dist)"
  shows "multi_variate_gaussian_policy C self x =
     Inr (demo_dist,
          self\<lparr>mu := \<lparr>shape = [3], data = [1, - 1, 1 / 2]\<rparr>,
               sigma := \<lparr>shape = [3], data = [softplus 0 + 1 / 10 ^ 7,
                 softplus 0 + 1 / 10 ^ 7, softplus 0 + 1 / 10 ^ 7]\<rparr>,
               value := v x\<rparr>)"
proof -
  have "mvn_args_ok C \<lparr>shape = [length [3, - 2, 1 / 2 :: real]], data = [1, - 1, 1 / 2]\<rparr>
          (covariance_matrix demo_dist)"
    using assms(3) by (simp add: demo_dist_def eval_nat_numeral)
  then show ?thesis
    using assms(1,2)
    by (simp add: multi_variate_gaussian_policy_def demo_dist_def
        MultivariateNormal_def Let_def squeeze_def unsqueeze0_def eye_times_def clamp_def
        upt_rec [of _ "numeral _"] upt_rec [of _ "Suc _"] del: upt.simps)
qed

lemma demo_policy:
  assumes "action_shape self = 3"
  shows "multi_variate_gaussian_policy demo_collaborators self x =
     Inr (demo_dist,
          self\<lparr>mu := \<lparr>shape = [3], data = [1, - 1, 1 / 2]\<rparr>,
               sigma := \<lparr>shape = [3], data = [softplus 0 + 1 / 10 ^ 7,
                 softplus 0 + 1 / 10 ^ 7, softplus 0 + 1 / 10 ^ 7]\<rparr>,
               value := sum_list (data x)\<rparr>)"
  using assms by (rule demo_policy_eval) (simp_all add: demo_sel demo_dist_def)

text \<open>
  Claim C8. Whenever the policy wrapper returns a distribution, the mean of that
  distribution is the network's mean output clamped componentwise, so every component
  lies in [-1, 1]; it is also what the wrapper stores as \<^verbatim>\<open>self.mu\<close>.
\<close>

theorem policy_mean_clamped:
  assumes "multi_variate_gaussian_policy C self x = Inr (d, self')"
  shows "(\<forall>m \<in> set (data (loc d)). - 1 \<le> m \<and> m \<le> 1)
       \<and> data (loc d) = map (\<lambda>m. clamp m (- 1) 1) (fst (forward C (actor_critic self) x))
       \<and> mu self' = loc d"
proof -
  have "data (loc d) = map (\<lambda>m. clamp m (- 1) 1) (fst (forward C (actor_critic self) x))"
    using policy_fields(1,2) [OF assms] by simp
  moreover have "\<forall>m \<in> set (map (\<lambda>m. clamp m (- 1) 1) ms). - 1 \<le> m \<and> m \<le> 1" for ms
    using clamp_bounds [of "- 1" 1] by auto
  ultimately show ?thesis
    using policy_fields(1) [OF assms] by simp
qed

text \<open>The network means 3, -2, 1/2 come back as 1, -1, 1/2.\<close>

theorem policy_mean_clamped_witness:
  "multi_variate_gaussian_policy demo_collaborators demo_agent
       \<lparr>shape = [1, 2], data = [0, 0]\<rparr>
     = Inr (demo_dist,
            demo_agent\<lparr>mu := \<lparr>shape = [3], data = [1, - 1, 1 / 2]\<rparr>,
               sigma := \<lparr>shape = [3], data = [softplus 0 + 1 / 10 ^ 7,
                 softplus 0 + 1 / 10 ^ 7, softplus 0 + 1 / 10 ^ 7]\<rparr>,
               value := 0\<rparr>)
   \<and> data (loc demo_dist) = [1, - 1, 1 / 2]
   \<and> list_all (\<lambda>m. - 1 \<le> m \<and> m \<le> 1) (data (loc demo_dist))"
proof -
  have a: "action_shape demo_agent = 3"
    by (simp add: demo_agent_def)
  have p: "multi_variate_gaussian_policy demo_collaborators demo_agent
       \<lparr>shape = [1, 2], data = [0, 0]\<rparr>
     = Inr (demo_dist,
            demo_agent\<lparr>mu := \<lparr>shape = [3], data = [1, - 1, 1 / 2]\<rparr>,
               sigma := \<lparr>shape = [3], data = [softplus 0 + 1 / 10 ^ 7,
                 softplus 0 + 1 / 10 ^ 7, softplus 0 + 1 / 10 ^ 7]\<rparr>,
               value := 0\<rparr>)"
    using demo_policy [OF a, of "\<lparr>shape = [1, 2], data = [0, 0]\<rparr>"] by simp
  from policy_mean_clamped [OF p]
  have "(\<forall>m \<in> set (data (loc demo_dist)). - 1 \<le> m \<and> m \<le> 1)"
    and "data (loc demo_dist) = map (\<lambda>m. clamp m (- 1) 1) [3, - 2, 1 / 2]"
    by (simp_all add: demo_sel)
  then have "list_all (\<lambda>m. - 1 \<le> m \<and> m \<le> 1) (data (loc demo_dist))"
    and "data (loc demo_dist) = [1, - 1, 1 / 2]"
    by (simp_all add: list_all_iff clamp_def)
  with p show ?thesis by simp
qed



section \<open>The one-step update\<close>

lemma mean_single: "mean [z] = z"
  by (simp add: mean_def)

text \<open>
  What a successful one-step update logs, in the tensor arithmetic of the collaborators.
\<close>

lemma learn_td_ac_result:
  assumes "preproc_obs s_t = Inr x"
    and "multi_variate_gaussian_policy C self x = Inr (d, self1)"
    and "mvn_log_prob C d a_t = Inr log_prob"
    and "preproc_obs s_tp1 = Inr x'"
    and "multi_variate_gaussian_policy C self1 x' = Inr (d', self2)"
  shows "learn_td_ac C self s_t a_t r s_tp1 terminal =
           Inr (self2\<lparr>writer := writer self @
                         [(''main/loss'',
                           - t_mean C [add_tt C log_prob
                               (pow_2 C (sub_tt C
                                  (add_tt C (as_tensor C r)
                                     (mul_ts C (snd (snd (forward C (actor_critic self) x')))
                                        (gamma self)))
                                  (snd (snd (forward C (actor_critic self) x)))))],
                           module_step_num self)],
                      actor_critic := optimizer_step C (actor_critic self)
                                        (TDLoss x a_t r x')\<rparr>)"
    and "value self1 = snd (snd (forward C (actor_critic self) x))"
    and "value self2 = snd (snd (forward C (actor_critic self) x'))"
proof -
  note p1 = policy_fields [OF assms(2)]
  note p2 = policy_fields [OF assms(5)]
  have s1: "actor_critic self1 = actor_critic self" "gamma self1 = gamma self"
    "writer self1 = writer self" "module_step_num self1 = module_step_num self"
    by (subst p1(5), simp)+
  have s2: "actor_critic self2 = actor_critic self1" "gamma self2 = gamma self1"
    "writer self2 = writer self1" "module_step_num self2 = module_step_num self1"
    by (subst p2(5), simp)+
  show v1: "value self1 = snd (snd (forward C (actor_critic self) x))"
    using p1(3) by simp
  show v2: "value self2 = snd (snd (forward C (actor_critic self) x'))"
    using p2(3) s1 by simp
  show "learn_td_ac C self s_t a_t r s_tp1 terminal =
           Inr (self2\<lparr>writer := writer self @
                         [(''main/loss'',
                           - t_mean C [add_tt C log_prob
                               (pow_2 C (sub_tt C
                                  (add_tt C (as_tensor C r)
                                     (mul_ts C (snd (snd (forward C (actor_critic self) x')))
                                        (gamma self)))
                                  (snd (snd (forward C (actor_critic self) x)))))],
                           module_step_num self)],
                      actor_critic := optimizer_step C (actor_critic self)
                                        (TDLoss x a_t r x')\<rparr>)"
    using assms s1 s2 v1 v2
    by (simp add: learn_td_ac_def Let_def)
qed

text \<open>The float32 operations of the scenario r = 1, gamma = 0.99, V = 0.5, V' = 0.6.\<close>

lemma float32_three_fifths: "float32 (3 / 5) = 5033165 / 8388608"
  using float32_exponent [of "- 1" "3 / 5"] by (simp add: round_half_even_def)

lemma f32_scenario:
  "f32_mul_scalar (5033165 / 8388608) (99 / 100) = 9965667 / 16777216"
  "f32_add 1 (9965667 / 16777216) = 6685721 / 4194304"
  "f32_sub (6685721 / 4194304) (1 / 2) = 4588569 / 4194304"
  "f32_pow2 (4588569 / 4194304) = 5019895 / 4194304"
  "f32_add 0 (5019895 / 4194304) = 5019895 / 4194304"
  "f32_mean [5019895 / 4194304] = 5019895 / 4194304"
proof -
  have g: "float32 (99 / 100) = 4152361 / 4194304"
    using float32_exponent [of "- 1" "99 / 100"] by (simp add: round_half_even_def)
  have m: "float32 (5033165 / 8388608 * (4152361 / 4194304)) = 9965667 / 16777216"
    using float32_exponent [of "- 1" "5033165 / 8388608 * (4152361 / 4194304)"]
    by (simp add: round_half_even_def)
  show "f32_mul_scalar (5033165 / 8388608) (99 / 100) = 9965667 / 16777216"
    unfolding f32_mul_scalar_def g by (rule m)
  show "f32_add 1 (9965667 / 16777216) = 6685721 / 4194304"
    unfolding f32_add_def
    using float32_exponent [of 0 "1 + 9965667 / 16777216"]
    by (simp add: round_half_even_def)
  show "f32_sub (6685721 / 4194304) (1 / 2) = 4588569 / 4194304"
    unfolding f32_sub_def
    using float32_exponent [of 0 "6685721 / 4194304 - 1 / 2"]
    by (simp add: round_half_even_def)
  show "f32_pow2 (4588569 / 4194304) = 5019895 / 4194304"
    unfolding f32_pow2_def
    using float32_exponent [of 0 "4588569 / 4194304 * (4588569 / 4194304)"]
    by (simp add: round_half_even_def)
  have r: "float32 (5019895 / 4194304) = 5019895 / 4194304"
    using float32_exponent [of 0 "5019895 / 4194304"]
    by (simp add: round_half_even_def)
  show a: "f32_add 0 (5019895 / 4194304) = 5019895 / 4194304"
    unfolding f32_add_def by (simp only: add_0 r)
  have "f32_mean [5019895 / 4194304] = float32 (f32_add 0 (5019895 / 4194304))"
    by (simp add: f32_mean_def)
  then show "f32_mean [5019895 / 4194304] = 5019895 / 4194304"
    by (simp only: a r)
qed

text \<open>
  Claim C2 as stated fails in float32, the arithmetic of the tensors of a run. With
  \<open>r = 1\<close>, \<open>gamma = 0.99\<close>, \<open>V(s_t) = 0.5\<close> and \<open>V(s_tp1)\<close> the float32 value nearest to
  0.6, the target is 6685721 / 4194304 (1.59400010...), the error is
  4588569 / 4194304 (1.09400010...) and the logged loss is minus 5019895 / 4194304;
  this is neither the square of 1.094 nor the square of \<open>r + gamma * V(s_tp1) - V(s_t)\<close>
  for the values of the run.
\<close>

theorem learn_td_ac_counterexample:
  "learn_td_ac demo_f32 (demo_agent\<lparr>gamma := 99 / 100\<rparr>)
       (NdArray \<lparr>shape = [2], data = [1 / 2, 0]\<rparr>) \<lparr>shape = [3], data = [1, - 1, 1 / 2]\<rparr> 1
       (NdArray \<lparr>shape = [2], data = [3 / 5, 0]\<rparr>) False
     = Inr (demo_agent\<lparr>gamma := 99 / 100,
              mu := \<lparr>shape = [3], data = [1, - 1, 1 / 2]\<rparr>,
              sigma := \<lparr>shape = [3], data = [softplus 0 + 1 / 10 ^ 7,
                 softplus 0 + 1 / 10 ^ 7, softplus 0 + 1 / 10 ^ 7]\<rparr>,
              value := 5033165 / 8388608,
              writer := [(''main/loss'', - (5019895 / 4194304), 0)]\<rparr>)
   \<and> (5019895 / 4194304 :: real) \<noteq> (1094 / 1000) ^ 2
   \<and> (5019895 / 4194304 :: real) \<noteq> (1 + 99 / 100 * (5033165 / 8388608) - 1 / 2) ^ 2
   \<and> f32_add (float32 1) (f32_mul_scalar (5033165 / 8388608) (99 / 100)) \<noteq> 1594 / 1000"
proof -
  let ?A = "demo_agent\<lparr>gamma := 99 / 100\<rparr>"
  let ?mu = "\<lparr>shape = [3], data = [1, - 1, 1 / 2]\<rparr>"
  let ?sg = "\<lparr>shape = [3], data = [softplus 0 + 1 / 10 ^ 7,
                 softplus 0 + 1 / 10 ^ 7, softplus 0 + 1 / 10 ^ 7]\<rparr>"
  let ?x = "\<lparr>shape = [1, 2], data = [1 / 2, 0]\<rparr>"
  let ?x' = "\<lparr>shape = [1, 2], data = [5033165 / 8388608, 0]\<rparr>"
  let ?A1 = "?A\<lparr>mu := ?mu, sigma := ?sg, value := sum_list (data ?x)\<rparr>"
  let ?A2 = "?A1\<lparr>mu := ?mu, sigma := ?sg, value := sum_list (data ?x')\<rparr>"
  have h1: "preproc_obs (NdArray \<lparr>shape = [2], data = [1 / 2, 0]\<rparr>) = Inr ?x"
    by (simp add: preproc_obs_pair)
  have h4: "preproc_obs (NdArray \<lparr>shape = [2], data = [3 / 5, 0]\<rparr>) = Inr ?x'"
    by (simp add: preproc_obs_pair float32_three_fifths)
  have h2: "multi_variate_gaussian_policy demo_f32 ?A ?x = Inr (demo_dist, ?A1)"
    by (rule demo_policy_eval) (simp_all add: demo_agent_def demo_f32_sel demo_dist_def)
  have h5: "multi_variate_gaussian_policy demo_f32 ?A1 ?x' = Inr (demo_dist, ?A2)"
    by (rule demo_policy_eval) (simp_all add: demo_agent_def demo_f32_sel demo_dist_def)
  have h3: "mvn_log_prob demo_f32 demo_dist ?mu = Inr 0"
    by (simp add: demo_f32_sel)
  have "learn_td_ac demo_f32 ?A
       (NdArray \<lparr>shape = [2], data = [1 / 2, 0]\<rparr>) ?mu 1
       (NdArray \<lparr>shape = [2], data = [3 / 5, 0]\<rparr>) False
     = Inr (?A\<lparr>mu := ?mu, sigma := ?sg, value := 5033165 / 8388608,
              writer := [(''main/loss'', - (5019895 / 4194304), 0)]\<rparr>)"
    using learn_td_ac_result(1) [OF h1 h2 h3 h4 h5, of 1 False]
    by (simp add: demo_f32_sel demo_agent_def f32_scenario)
  moreover have "f32_add (float32 1) (f32_mul_scalar (5033165 / 8388608) (99 / 100))
                   \<noteq> 1594 / 1000"
    by (simp add: f32_scenario)
  ultimately show ?thesis
    by (simp add: power2_eq_square)
qed

text \<open>
  Claim C2, amended. When the two policy queries and the log-density succeed,
  \<open>learn_td_ac\<close> computes the target as the tensor of \<open>r\<close> plus \<open>V(s_tp1)\<close> times
  \<open>gamma\<close>, the error as the target minus \<open>V(s_t)\<close>, and logs and optimizes the loss
  minus the mean of the log-density plus the squared error, each of these operations being
  the tensor operation of the run, which rounds its result to the precision of the
  tensors; \<open>log_prob\<close> and \<open>V(s_t)\<close> come from the policy query at the preprocessed
  \<open>s_t\<close> and \<open>V(s_tp1)\<close> from the second query, at the preprocessed \<open>s_tp1\<close>. In exact
  arithmetic this is \<open>td_target = r + gamma * V(s_tp1)\<close>,
  \<open>td_err = td_target - V(s_t)\<close> and \<open>loss = - (log_prob + td_err ^ 2)\<close> (the batch has
  one element, so the mean is that element). The flag \<open>done\<close> plays no part.
\<close>

theorem learn_td_ac_loss:
  assumes "preproc_obs s_t = Inr x"
    and "multi_variate_gaussian_policy C self x = Inr (d, self1)"
    and "mvn_log_prob C d a_t = Inr log_prob"
    and "preproc_obs s_tp1 = Inr x'"
    and "multi_variate_gaussian_policy C self1 x' = Inr (d', self2)"
    and "V_st = snd (snd (forward C (actor_critic self) x))"
    and "V_stp1 = snd (snd (forward C (actor_critic self) x'))"
    and "td_target = add_tt C (as_tensor C r) (mul_ts C V_stp1 (gamma self))"
    and "td_err = sub_tt C td_target V_st"
    and "loss = - t_mean C [add_tt C log_prob (pow_2 C td_err)]"
  shows "learn_td_ac C self s_t a_t r s_tp1 terminal =
           Inr (self2\<lparr>writer := writer self @ [(''main/loss'', loss, module_step_num self)],
                      actor_critic := optimizer_step C (actor_critic self)
                                        (TDLoss x a_t r x')\<rparr>)
         \<and> value self1 = V_st \<and> value self2 = V_stp1
         \<and> (exact_arithmetic C \<longrightarrow>
              td_target = r + gamma self * V_stp1 \<and> td_err = td_target - V_st
              \<and> loss = - (log_prob + (r + gamma self * V_stp1 - V_st) ^ 2))"
proof -
  note res = learn_td_ac_result(1) [OF assms(1-5), of r terminal]
  note vals = learn_td_ac_result(2,3) [OF assms(1-5)]
  have "learn_td_ac C self s_t a_t r s_tp1 terminal =
           Inr (self2\<lparr>writer := writer self @ [(''main/loss'', loss, module_step_num self)],
                      actor_critic := optimizer_step C (actor_critic self)
                                        (TDLoss x a_t r x')\<rparr>)"
    using res assms(6-10) by simp
  moreover have "td_target = r + gamma self * V_stp1 \<and> td_err = td_target - V_st
         \<and> loss = - (log_prob + (r + gamma self * V_stp1 - V_st) ^ 2)"
    if "exact_arithmetic C"
    using that assms(8-10) by (simp add: exact_arithmetic_def mean_single mult.commute)
  ultimately show ?thesis
    using vals assms(6,7) by simp
qed

text \<open>
  The scenario of the specification in exact arithmetic, on a network whose value
  estimate is a tenth of the sum of the observation: reward 1, discount 0.99,
  \<open>V(s_t) = 0.5\<close> and \<open>V(s_tp1) = 0.6\<close> give the target 1.594 and the error 1.094 (the
  log-density of the concrete agent is 0, so the loss is minus the squared error).
\<close>

theorem learn_td_ac_loss_witness:
  "exact_arithmetic
     (demo_collaborators\<lparr>forward :=
        \<lambda>p x. ([3, - 2, 1 / 2], [0, 0, 0], sum_list (data x) / 10)\<rparr>)
   \<and> learn_td_ac
       (demo_collaborators\<lparr>forward :=
          \<lambda>p x. ([3, - 2, 1 / 2], [0, 0, 0], sum_list (data x) / 10)\<rparr>)
       (demo_agent\<lparr>gamma := 99 / 100\<rparr>)
       (NdArray \<lparr>shape = [2], data = [5, 0]\<rparr>) \<lparr>shape = [3], data = [1, - 1, 1 / 2]\<rparr> 1
       (NdArray \<lparr>shape = [2], data = [6, 0]\<rparr>) False
     = Inr (demo_agent\<lparr>gamma := 99 / 100,
              mu := \<lparr>shape = [3], data = [1, - 1, 1 / 2]\<rparr>,
              sigma := \<lparr>shape = [3], data = [softplus 0 + 1 / 10 ^ 7,
                 softplus 0 + 1 / 10 ^ 7, softplus 0 + 1 / 10 ^ 7]\<rparr>,
              value := 3 / 5,
              writer := [(''main/loss'', - ((1094 / 1000) ^ 2), 0)]\<rparr>)
   \<and> (1594 / 1000 :: real) = 1 + 99 / 100 * (3 / 5)
   \<and> (1094 / 1000 :: real) = 1594 / 1000 - 1 / 2"
proof -
  let ?C = "demo_collaborators\<lparr>forward :=
          \<lambda>p x. ([3, - 2, 1 / 2], [0, 0, 0], sum_list (data x) / 10)\<rparr>"
  let ?A = "demo_agent\<lparr>gamma := 99 / 100\<rparr>"
  let ?mu = "\<lparr>shape = [3], data = [1, - 1, 1 / 2]\<rparr>"
  let ?sg = "\<lparr>shape = [3], data = [softplus 0 + 1 / 10 ^ 7,
                 softplus 0 + 1 / 10 ^ 7, softplus 0 + 1 / 10 ^ 7]\<rparr>"
  let ?x = "\<lparr>shape = [1, 2], data = [5, 0]\<rparr>"
  let ?x' = "\<lparr>shape = [1, 2], data = [6, 0]\<rparr>"
  let ?A1 = "?A\<lparr>mu := ?mu, sigma := ?sg, value := sum_list (data ?x) / 10\<rparr>"
  let ?A2 = "?A1\<lparr>mu := ?mu, sigma := ?sg, value := sum_list (data ?x') / 10\<rparr>"
  have six: "float32 6 = 6"
    using float32_exponent [of 2 6] by (simp add: round_half_even_def)
  have ex: "exact_arithmetic ?C"
    by (simp add: exact_arithmetic_def demo_arith)
  have h1: "preproc_obs (NdArray \<lparr>shape = [2], data = [5, 0]\<rparr>) = Inr ?x"
    by (simp add: preproc_obs_pair)
  have h4: "preproc_obs (NdArray \<lparr>shape = [2], data = [6, 0]\<rparr>) = Inr ?x'"
    by (simp add: preproc_obs_pair six)
  have h2: "multi_variate_gaussian_policy ?C ?A ?x = Inr (demo_dist, ?A1)"
    by (rule demo_policy_eval) (simp_all add: demo_agent_def demo_sel demo_dist_def)
  have h5: "multi_variate_gaussian_policy ?C ?A1 ?x' = Inr (demo_dist, ?A2)"
    by (rule demo_policy_eval) (simp_all add: demo_agent_def demo_sel demo_dist_def)
  have h3: "mvn_log_prob ?C demo_dist ?mu = Inr 0"
    by (simp add: demo_sel)
  note t = learn_td_ac_loss [OF h1 h2 h3 h4 h5 refl refl refl refl refl, of 1 False]
  have "learn_td_ac ?C ?A
       (NdArray \<lparr>shape = [2], data = [5, 0]\<rparr>) ?mu 1
       (NdArray \<lparr>shape = [2], data = [6, 0]\<rparr>) False
     = Inr (?A\<lparr>mu := ?mu, sigma := ?sg, value := 3 / 5,
              writer := [(''main/loss'', - ((1094 / 1000) ^ 2), 0)]\<rparr>)"
    using t ex by (simp add: demo_sel demo_arith demo_agent_def mean_single power2_eq_square)
  with ex show ?thesis by simp
qed

section \<open>The training loop\<close>

subsection \<open>One learning step and one pass through the loop body\<close>

text \<open>
  \<open>learn\<close> writes one log entry and updates the weights; it leaves the reward buffer
  and the trajectory as they are.
\<close>

lemma learn_result:
  assumes "learn C self ob terminal = Inr self'"
  shows "\<exists>loss td.
           self' = self\<lparr>writer := writer self @ [(''agent/loss'', loss, global_step_num self)],
                        actor_critic := optimizer_step C (actor_critic self)
                                          (NStepLoss (trajectory self) td)\<rparr>
         \<and> calculate_n_step_return C self (rewards self) ob terminal (gamma self) = Inr td
         \<and> calculate_loss C (trajectory self) td = Inr loss"
  using assms by (auto simp: learn_def split: sum.splits)

lemma learn_keeps_buffers:
  assumes "learn C self ob terminal = Inr self'"
  shows "rewards self' = rewards self \<and> trajectory self' = trajectory self"
  using learn_result [OF assms] by auto

lemma get_action_result:
  assumes "get_action C self ob = Inr (act, self')"
  shows "\<exists>tr. trajectory self' = trajectory self @ [tr]"
    and "writer self' = writer self"
    and "global_step_num self' = global_step_num self"
    and "rewards self' = rewards self"
proof -
  from assms obtain x d self1 g' lp where
    pol: "multi_variate_gaussian_policy C self x = Inr (d, self1)" and
    res: "self' = self1\<lparr>rng := g', trajectory := trajectory self1 @
              [\<lparr>tr_s = x, value_s = value self1, tr_a = act, log_prob_a = lp\<rparr>]\<rparr>"
    by (auto simp: get_action_def split: sum.splits prod.splits)
  note p = policy_fields(5) [OF pol]
  have f: "trajectory self1 = trajectory self" "writer self1 = writer self"
    "global_step_num self1 = global_step_num self" "rewards self1 = rewards self"
    by (subst p, simp)+
  show "\<exists>tr. trajectory self' = trajectory self @ [tr]" using res f by simp
  show "writer self' = writer self" using res f by simp
  show "global_step_num self' = global_step_num self" using res f by simp
  show "rewards self' = rewards self" using res f by simp
qed

text \<open>
  One pass through the body: one more step, one more reward and transition in the
  buffers, and a log entry of \<open>learn\<close> exactly when the test of the source holds.
\<close>

lemma run_body_result:
  assumes "run_body C thresh (v, self) = Inr (v', self')"
  shows "step_num v' = step_num v + 1"
    and "global_step_num self' = global_step_num self + 1"
    and "\<exists>r tr. rewards self' = rewards self @ [r] \<and> trajectory self' = trajectory self @ [tr]"
    and "\<exists>r loss. writer self' = writer self
            @ (if thresh \<le> int (step_num v') \<or> done v'
               then [(''agent/loss'', loss, global_step_num self)] else [])
            @ [(''agent/reward'', r, global_step_num self + 1)]"
proof -
  from assms obtain act self1 next_obs reward d' e' self3 where
    ga: "get_action C self (NdArray (obs v)) = Inr (act, self1)" and
    lr: "(if thresh \<le> int (step_num v + 1) \<or> d'
          then learn C (self1\<lparr>env := e', rewards := rewards self1 @ [reward]\<rparr>)
                 (NdArray next_obs) d'
          else Inr (self1\<lparr>env := e', rewards := rewards self1 @ [reward]\<rparr>)) = Inr self3" and
    v': "v' = \<lparr>obs = next_obs, done = d', ep_reward = ep_reward v + reward,
              step_num = step_num v + 1\<rparr>" and
    s': "self' = self3\<lparr>global_step_num := global_step_num self3 + 1,
                       writer := writer self3 @
                         [(''agent/reward'', reward, global_step_num self3 + 1)]\<rparr>"
    by (auto simp: run_body_def Let_def split: sum.splits prod.splits)
  note g = get_action_result [OF ga]
  let ?self2 = "self1\<lparr>env := e', rewards := rewards self1 @ [reward]\<rparr>"
  let ?fire = "thresh \<le> int (step_num v + 1) \<or> d'"
  have s3: "\<exists>loss. writer self3 = writer self
                @ (if ?fire then [(''agent/loss'', loss, global_step_num self)] else [])
        \<and> global_step_num self3 = global_step_num self
        \<and> rewards self3 = rewards self @ [reward]
        \<and> trajectory self3 = trajectory self1"
  proof (cases ?fire)
    case True
    with lr have "learn C ?self2 (NdArray next_obs) d' = Inr self3" by simp
    from learn_result [OF this] obtain loss td where
      "self3 = ?self2\<lparr>writer := writer ?self2 @ [(''agent/loss'', loss, global_step_num ?self2)],
                       actor_critic := optimizer_step C (actor_critic ?self2)
                                         (NStepLoss (trajectory ?self2) td)\<rparr>"
      by blast
    then have "writer self3 = writer self1 @ [(''agent/loss'', loss, global_step_num self1)]"
      "global_step_num self3 = global_step_num self1"
      "rewards self3 = rewards self1 @ [reward]" "trajectory self3 = trajectory self1"
      by simp_all
    with True g show ?thesis by simp
  next
    case False
    with lr have "self3 = ?self2" by simp
    with False g show ?thesis by simp
  qed
  show "step_num v' = step_num v + 1" using v' by simp
  show "global_step_num self' = global_step_num self + 1" using s' s3 by auto
  show "\<exists>r tr. rewards self' = rewards self @ [r] \<and> trajectory self' = trajectory self @ [tr]"
    using s' s3 g(1) by auto
  show "\<exists>r loss. writer self' = writer self
            @ (if thresh \<le> int (step_num v') \<or> done v'
               then [(''agent/loss'', loss, global_step_num self)] else [])
            @ [(''agent/reward'', r, global_step_num self + 1)]"
    using s' s3 v' by auto
qed

subsection \<open>The steps at which an episode learns\<close>

lemma learn_steps_append: "learn_steps (xs @ ys) = learn_steps xs @ learn_steps ys"
  by (simp add: learn_steps_def)

lemma run_while_done:
  "done (fst st) \<Longrightarrow> run_while fuel C thresh st = Some (Inr st)"
  by (cases fuel) simp_all

lemma run_while_numeral:
  "run_while (numeral k) C thresh st =
     (if done (fst st) then Some (Inr st)
      else case run_body C thresh st of
             Inl e \<Rightarrow> Some (Inl e)
           | Inr st' \<Rightarrow> run_while (pred_numeral k) C thresh st')"
  by (simp add: numeral_eq_Suc)

text \<open>
  The loop from a state that is not yet done: it ends in a done state after at least one
  step, and the log entries of \<open>learn\<close> it has added sit at exactly the steps \<open>k\<close> with
  \<open>thresh \<le> k\<close> or \<open>k\<close> the last step.
\<close>

lemma run_while_trace:
  assumes "run_while fuel C thresh (v, self) = Some (Inr (v', self'))"
    and "\<not> done v"
  shows "step_num v < step_num v' \<and> done v'
       \<and> global_step_num self' = global_step_num self + (step_num v' - step_num v)
       \<and> (\<exists>new. writer self' = writer self @ new
             \<and> learn_steps new =
                 map (\<lambda>k. global_step_num self + (k - step_num v) - 1)
                   (filter (\<lambda>k. thresh \<le> int k \<or> k = step_num v')
                      [step_num v + 1 ..< step_num v' + 1]))"
  using assms
proof (induction fuel arbitrary: v self)
  case 0
  then show ?case by simp
next
  case (Suc fuel)
  from Suc.prems obtain v1 self1 where
    body: "run_body C thresh (v, self) = Inr (v1, self1)" and
    rest: "run_while fuel C thresh (v1, self1) = Some (Inr (v', self'))"
    by (auto split: sum.splits)
  note b = run_body_result [OF body]
  from b(4) obtain r loss where
    w1: "writer self1 = writer self
           @ (if thresh \<le> int (step_num v1) \<or> done v1
              then [(''agent/loss'', loss, global_step_num self)] else [])
           @ [(''agent/reward'', r, global_step_num self + 1)]"
    by blast
  let ?first = "(if thresh \<le> int (step_num v1) \<or> done v1
              then [(''agent/loss'', loss, global_step_num self)] else [])
           @ [(''agent/reward'', r, global_step_num self + 1)]"
  show ?case
  proof (cases "done v1")
    case True
    with rest have e: "v' = v1" "self' = self1"
      by (simp_all add: run_while_done)
    have "learn_steps ?first = [global_step_num self]"
      using True by (simp add: learn_steps_def)
    with e True b(1,2) w1 show ?thesis
      by (intro conjI exI [of _ ?first]) simp_all
  next
    case False
    from Suc.IH [OF rest False] obtain new where
      ih: "step_num v1 < step_num v'" "done v'"
        "global_step_num self' = global_step_num self1 + (step_num v' - step_num v1)"
        "writer self' = writer self1 @ new"
        "learn_steps new =
           map (\<lambda>k. global_step_num self1 + (k - step_num v1) - 1)
             (filter (\<lambda>k. thresh \<le> int k \<or> k = step_num v')
                [step_num v1 + 1 ..< step_num v' + 1])"
      by blast
    define f where "f = (\<lambda>k. global_step_num self + (k - step_num v) - 1)"
    define P where "P = (\<lambda>k. thresh \<le> int k \<or> k = step_num v')"
    define later where "later = [step_num v1 + 1 ..< step_num v' + 1]"
    have split: "[step_num v + 1 ..< step_num v' + 1] = (step_num v + 1) # later"
      using ih(1) b(1) by (simp add: upt_conv_Cons later_def)
    have "map (\<lambda>k. global_step_num self1 + (k - step_num v1) - 1) (filter P later)
        = map f (filter P later)"
      unfolding f_def later_def using b(1,2) by (intro map_cong refl) auto
    then have tail: "learn_steps new = map f (filter P later)"
      using ih(5) by (simp add: P_def later_def)
    have first: "learn_steps ?first = (if P (step_num v + 1) then [f (step_num v + 1)] else [])"
      using False b(1) ih(1) by (simp add: learn_steps_def P_def f_def)
    have "learn_steps (?first @ new) = learn_steps ?first @ learn_steps new"
      by (rule learn_steps_append)
    also have "\<dots> = (if P (step_num v + 1) then [f (step_num v + 1)] else [])
                      @ map f (filter P later)"
      by (simp only: first tail)
    also have "\<dots> = map f (filter P ((step_num v + 1) # later))"
      by simp
    finally have "learn_steps (?first @ new) =
        map (\<lambda>k. global_step_num self + (k - step_num v) - 1)
          (filter (\<lambda>k. thresh \<le> int k \<or> k = step_num v')
             [step_num v + 1 ..< step_num v' + 1])"
      by (simp only: split f_def P_def)
    moreover have "writer self' = writer self @ (?first @ new)"
      using ih(4) w1 by simp
    moreover have "step_num v < step_num v'" using ih(1) b(1) by simp
    moreover have "global_step_num self' = global_step_num self + (step_num v' - step_num v)"
      using ih(1,3) b(1,2) by simp
    ultimately show ?thesis using ih(2) by blast
  qed
qed

text \<open>
  An episode of \<open>run\<close> that ends, after \<open>T\<close> steps: the step numbers logged by \<open>learn\<close>
  during the episode are those of the steps \<open>k\<close> with \<open>thresh \<le> k\<close> (the source's test
  \<^verbatim>\<open>step_num >= n_step_learning_step_thresh\<close>) or \<open>k = T\<close>, each once and in order. The
  step count is not reset by a learning update, so once it has reached the threshold
  every later step of the episode learns as well.
\<close>

lemma run_episode_learning_steps:
  assumes "run_episode fuel C thresh self = Some (Inr self')"
  shows "\<exists>T new. 0 < T \<and> global_step_num self' = global_step_num self + T
           \<and> writer self' = writer self @ new
           \<and> learn_steps new =
               map (\<lambda>k. global_step_num self + k - 1)
                 (filter (\<lambda>k. thresh \<le> int k \<or> k = T) [1 ..< T + 1])"
proof -
  obtain o0 e' where r: "env_reset C (env self) = (o0, e')"
    by (cases "env_reset C (env self)")
  let ?v0 = "\<lparr>obs = o0, done = False, ep_reward = 0, step_num = 0\<rparr>"
  let ?s0 = "self\<lparr>env := e'\<rparr>"
  from assms r obtain v1 self1 where
    w: "run_while fuel C thresh (?v0, ?s0) = Some (Inr (v1, self1))" and
    s': "self' = self1\<lparr>writer := writer self1 @
                   [(''agent/ep_reward'', ep_reward v1, global_step_num self1)]\<rparr>"
    by (auto simp: run_episode_def split: option.splits sum.splits)
  from run_while_trace [OF w] obtain new where
    t: "0 < step_num v1" "global_step_num self1 = global_step_num self + step_num v1"
      "writer self1 = writer self @ new"
      "learn_steps new = map (\<lambda>k. global_step_num self + k - 1)
          (filter (\<lambda>k. thresh \<le> int k \<or> k = step_num v1) [1 ..< step_num v1 + 1])"
    by auto
  let ?new = "new @ [(''agent/ep_reward'', ep_reward v1, global_step_num self1)]"
  have "learn_steps ?new = learn_steps new"
    by (simp add: learn_steps_def)
  with t s' show ?thesis
    by (intro exI [of _ "step_num v1"] exI [of _ ?new]) simp
qed

subsection \<open>Running the concrete agents\<close>

lemma demo_long_sel:
  "forward demo_long = (\<lambda>p x. ([3, - 2, 1 / 2], [0, 0, 0], sum_list (data x)))"
  "mvn_args_ok demo_long = (\<lambda>m cov. shape cov = [length (data m), length (data m)])"
  "mvn_sample demo_long = (\<lambda>g d. (loc d, g))"
  "mvn_log_prob demo_long = (\<lambda>d x. Inr 0)"
  "smooth_l1_loss demo_long =
     (\<lambda>xs ys. if length xs = length ys then Inr 0 else Inl RuntimeError)"
  "optimizer_step demo_long =
     (\<lambda>p l. case l of NStepLoss tr td \<Rightarrow> p @ [td] | TDLoss x act r x' \<Rightarrow> p)"
  "env_reset demo_long = (\<lambda>e. (\<lparr>shape = [2], data = [0, 0]\<rparr>, 0))"
  "env_step demo_long =
     (\<lambda>e act. ((\<lparr>shape = [2], data = [real (e + 1), 0]\<rparr>, real (e + 1), 5 \<le> e + 1), e + 1))"
  by (simp_all add: demo_long_def demo_sel)

lemma demo_long_exact: "exact_arithmetic demo_long"
  by (simp add: exact_arithmetic_def demo_long_def demo_arith)

lemma demo_process:
  "process_action \<lparr>shape = [3], data = [1, - 1, 1 / 2]\<rparr>
     = Inr \<lparr>shape = [3], data = [1, - 1, 1 / 2]\<rparr>"
  by (simp add: process_action_def squeeze_def unsqueeze0_def Let_def)

lemma demo_get_action_eval:
  assumes "action_shape self = 3"
    and "forward C = (\<lambda>p x. ([3, - 2, 1 / 2], [0, 0, 0], sum_list (data x)))"
    and "mvn_args_ok C = (\<lambda>m cov. shape cov = [length (data m), length (data m)])"
    and "mvn_sample C = (\<lambda>g d. (loc d, g))"
    and "mvn_log_prob C = (\<lambda>d x. Inr 0)"
  shows "get_action C self (NdArray \<lparr>shape = [2], data = [z, 0]\<rparr>) =
     Inr (\<lparr>shape = [3], data = [1, - 1, 1 / 2]\<rparr>,
          self\<lparr>mu := \<lparr>shape = [3], data = [1, - 1, 1 / 2]\<rparr>,
               sigma := \<lparr>shape = [3], data = [softplus 0 + 1 / 10 ^ 7,
                        softplus 0 + 1 / 10 ^ 7, softplus 0 + 1 / 10 ^ 7]\<rparr>,
               value := float32 z,
               trajectory := trajectory self @
                 [\<lparr>tr_s = \<lparr>shape = [1, 2], data = [float32 z, 0]\<rparr>, value_s = float32 z,
                   tr_a = \<lparr>shape = [3], data = [1, - 1, 1 / 2]\<rparr>, log_prob_a = 0\<rparr>]\<rparr>)"
proof -
  have ok: "mvn_args_ok C (loc demo_dist) (covariance_matrix demo_dist)"
    by (simp add: assms(3) demo_dist_def)
  show ?thesis
    by (simp add: get_action_def preproc_obs_pair demo_policy_eval [OF assms(1,2) ok])
      (simp add: assms(4,5) demo_dist_def demo_process)
qed

lemma demo_get_action:
  assumes "action_shape self = 3"
  shows "get_action demo_collaborators self (NdArray \<lparr>shape = [2], data = [z, 0]\<rparr>) =
     Inr (\<lparr>shape = [3], data = [1, - 1, 1 / 2]\<rparr>,
          self\<lparr>mu := \<lparr>shape = [3], data = [1, - 1, 1 / 2]\<rparr>,
               sigma := \<lparr>shape = [3], data = [softplus 0 + 1 / 10 ^ 7,
                        softplus 0 + 1 / 10 ^ 7, softplus 0 + 1 / 10 ^ 7]\<rparr>,
               value := float32 z,
               trajectory := trajectory self @
                 [\<lparr>tr_s = \<lparr>shape = [1, 2], data = [float32 z, 0]\<rparr>, value_s = float32 z,
                   tr_a = \<lparr>shape = [3], data = [1, - 1, 1 / 2]\<rparr>, log_prob_a = 0\<rparr>]\<rparr>)"
  using assms by (rule demo_get_action_eval) (simp_all only: demo_sel)

lemma demo_long_get_action:
  assumes "action_shape self = 3"
  shows "get_action demo_long self (NdArray \<lparr>shape = [2], data = [z, 0]\<rparr>) =
     Inr (\<lparr>shape = [3], data = [1, - 1, 1 / 2]\<rparr>,
          self\<lparr>mu := \<lparr>shape = [3], data = [1, - 1, 1 / 2]\<rparr>,
               sigma := \<lparr>shape = [3], data = [softplus 0 + 1 / 10 ^ 7,
                        softplus 0 + 1 / 10 ^ 7, softplus 0 + 1 / 10 ^ 7]\<rparr>,
               value := float32 z,
               trajectory := trajectory self @
                 [\<lparr>tr_s = \<lparr>shape = [1, 2], data = [float32 z, 0]\<rparr>, value_s = float32 z,
                   tr_a = \<lparr>shape = [3], data = [1, - 1, 1 / 2]\<rparr>, log_prob_a = 0\<rparr>]\<rparr>)"
  using assms by (rule demo_get_action_eval) (simp_all only: demo_long_sel)

lemma demo_learn_eval:
  assumes "length (trajectory self) = length (rewards self)" and "rewards self \<noteq> []"
    and "forward C = (\<lambda>p x. ([3, - 2, 1 / 2], [0, 0, 0], sum_list (data x)))"
    and "smooth_l1_loss C =
           (\<lambda>xs ys. if length xs = length ys then Inr 0 else Inl RuntimeError)"
    and "optimizer_step C =
           (\<lambda>p l. case l of NStepLoss tr td \<Rightarrow> p @ [td] | TDLoss x act r x' \<Rightarrow> p)"
    and "exact_arithmetic C"
  shows "learn C self (NdArray \<lparr>shape = [2], data = [z, 0]\<rparr>) terminal =
     Inr (self\<lparr>writer := writer self @
                 [(''agent/loss'', - mean (map log_prob_a (trajectory self)),
                   global_step_num self)],
               actor_critic := actor_critic self @
                  [snd (n_step_loop C (gamma self)
                          (if terminal then PyNum 0 else TensorVal (float32 z))
                          (rewards self))]\<rparr>)"
proof -
  let ?td = "snd (n_step_loop C (gamma self)
                   (if terminal then PyNum 0 else TensorVal (float32 z)) (rewards self))"
  have calc: "calculate_n_step_return C self (rewards self)
                (NdArray \<lparr>shape = [2], data = [z, 0]\<rparr>) terminal (gamma self) = Inr ?td"
    by (simp add: calculate_n_step_return_def preproc_obs_pair assms(3))
  have "trajectory self \<noteq> []" using assms(1,2) by auto
  then have "calculate_loss C (trajectory self) ?td
          = Inr (- mean (map log_prob_a (trajectory self)))"
    using assms(1,6)
    by (simp add: calculate_loss_def assms(4) Let_def length_n_step_loop
        exact_arithmetic_def)
  with calc show ?thesis
    by (simp add: learn_def assms(5))
qed

lemma demo_learn:
  assumes "length (trajectory self) = length (rewards self)" and "rewards self \<noteq> []"
  shows "learn demo_collaborators self (NdArray \<lparr>shape = [2], data = [z, 0]\<rparr>) terminal =
     Inr (self\<lparr>writer := writer self @
                 [(''agent/loss'', - mean (map log_prob_a (trajectory self)),
                   global_step_num self)],
               actor_critic := actor_critic self @
                  [snd (n_step_loop demo_collaborators (gamma self)
                          (if terminal then PyNum 0 else TensorVal (float32 z))
                          (rewards self))]\<rparr>)"
  using assms by (rule demo_learn_eval) (simp_all only: demo_sel demo_exact)

lemma demo_long_learn:
  assumes "length (trajectory self) = length (rewards self)" and "rewards self \<noteq> []"
  shows "learn demo_long self (NdArray \<lparr>shape = [2], data = [z, 0]\<rparr>) terminal =
     Inr (self\<lparr>writer := writer self @
                 [(''agent/loss'', - mean (map log_prob_a (trajectory self)),
                   global_step_num self)],
               actor_critic := actor_critic self @
                  [snd (n_step_loop demo_long (gamma self)
                          (if terminal then PyNum 0 else TensorVal (float32 z))
                          (rewards self))]\<rparr>)"
  using assms by (rule demo_learn_eval) (simp_all only: demo_long_sel demo_long_exact)

lemma demo_long_loop_Cons:
  "snd (n_step_loop demo_long g g0 (r # rs)) =
           (r + g * (if rs = [] then (case g0 of PyNum z \<Rightarrow> z | TensorVal v \<Rightarrow> v)
                     else snd (n_step_loop demo_long g g0 rs) ! 0))
           # snd (n_step_loop demo_long g g0 rs)"
  by (rule n_step_loop_exact_Cons [OF demo_long_exact])

lemma demo_env:
  "env_step demo_collaborators e act =
     ((\<lparr>shape = [2], data = [real (e + 1), 0]\<rparr>, real (e + 1), 2 \<le> e + 1), e + 1)"
  "env_reset demo_collaborators e = (\<lparr>shape = [2], data = [0, 0]\<rparr>, 0)"
  by (simp_all add: demo_sel)

lemma demo_long_env:
  "env_step demo_long e act =
     ((\<lparr>shape = [2], data = [real (e + 1), 0]\<rparr>, real (e + 1), 5 \<le> e + 1), e + 1)"
  "env_reset demo_long e = (\<lparr>shape = [2], data = [0, 0]\<rparr>, 0)"
  by (simp_all add: demo_long_sel)

text \<open>With threshold 1 the two-step episode learns at both steps.\<close>

lemma demo_episode_thresh_1:
  "run_episode 5 demo_collaborators 1 demo_agent =
     Some (Inr (demo_final\<lparr>writer := writer demo_final @ [(''agent/ep_reward'', 3, 2)]\<rparr>))"
  by (simp add: run_episode_def demo_env run_while_numeral run_body_def demo_get_action
      demo_learn demo_agent_def demo_final_def Let_def n_step_loop_Nil demo_loop_Cons mean_def)

text \<open>With threshold 5 it learns at the terminal step only.\<close>

lemma demo_episode_thresh_5:
  "run_episode 5 demo_collaborators 5 demo_agent =
     Some (Inr (demo_final\<lparr>actor_critic := [[2, 2]],
          writer := [(''agent/reward'', 1, 1), (''agent/loss'', 0, 1),
                     (''agent/reward'', 2, 2), (''agent/ep_reward'', 3, 2)]\<rparr>))"
  by (simp add: run_episode_def demo_env run_while_numeral run_body_def demo_get_action
      demo_learn demo_agent_def demo_final_def Let_def n_step_loop_Nil demo_loop_Cons mean_def)

text \<open>
  Claim C9 (the code departs from it). The claim lets a learning update fire at the
  step at which the step count of the episode reaches the threshold or at the step at
  which the episode terminates, whichever comes first, and at no other step. The source
  tests \<^verbatim>\<open>step_num >= n_step_learning_step_thresh or done\<close> and never resets
  \<^verbatim>\<open>step_num\<close> within the episode, so from the threshold step on every step learns. In
  a run of one episode of five steps with threshold 3 the claim allows an update at
  step 3, where the count reaches the threshold, and at step 5, where the episode
  terminates; the code updates at steps 3, 4 and 5. (\<open>learn\<close> logs its loss under the global step number
  before the step is counted, so the update of step \<open>k\<close> of this first episode is logged
  under \<open>k - 1\<close>: the logged numbers are 2, 3 and 4.)
\<close>

theorem run_learns_at_every_step_from_threshold:
  "map_option (map_sum id (\<lambda>self'. (learn_steps (writer self'), global_step_num self')))
     (run 9 demo_long 1 3 demo_agent)
   = Some (Inr ([2, 3, 4], 5))"
  by (simp add: run_episode_def demo_long_env run_while_numeral run_body_def
      demo_long_get_action demo_long_learn demo_agent_def Let_def n_step_loop_Nil
      demo_long_loop_Cons mean_def learn_steps_def)

text \<open>
  Claim C4 (the code departs from it). Neither \<open>learn\<close> nor \<open>run\<close> ever empties
  \<^verbatim>\<open>self.rewards\<close> or \<^verbatim>\<open>self.trajectory\<close> (see \<open>learn_keeps_buffers\<close> and
  \<open>run_body_result\<close>): both only grow. In one two-step episode with threshold 1 and
  rewards 1 and 2, the first learning step consumes the reward list [1] (target 3/2) and
  the second consumes [1, 2] (targets 2, 2), not [2]; the weights of the concrete agent
  record the targets each step was given. Afterwards both buffers still hold all entries.
\<close>

theorem run_never_clears_buffers:
  "map_option (map_sum id (\<lambda>self'. (actor_critic self', rewards self',
                                      length (trajectory self'))))
     (run 5 demo_collaborators 1 1 demo_agent)
   = Some (Inr ([[3 / 2], [2, 2]], [1, 2], 2))"
  by (simp add: demo_episode_thresh_1 demo_final_def)

end
